theory Spec2Isabelle
  imports Main "HOL-Library.FSet" "HOL-Library.AList" "HOL-Library.Monad_Syntax"
begin

section \<open>JavaScript values used by the catalog code\<close>

text \<open>
  Strings are byte lists holding the UTF-8 encoding of the JavaScript string. The code only
  tests strings for emptiness, compares them with ASCII literals, tests for a final
  \<open>/\<close> and concatenates them, and these agree on the UTF-8 bytes. The accented letters
  of the Portuguese messages are written as their two UTF-8 bytes.
\<close>

definition a_acute :: string where "a_acute = [CHR 0xC3, CHR 0xA1]"
definition a_tilde :: string where "a_tilde = [CHR 0xC3, CHR 0xA3]"
definition c_cedilla :: string where "c_cedilla = [CHR 0xC3, CHR 0xA7]"
definition o_tilde :: string where "o_tilde = [CHR 0xC3, CHR 0xB5]"

text \<open>
  A JavaScript number is \<open>NaN\<close>, an infinity or a finite value. Finite values are exact
  rationals: every double is one, and the rounding of a decimal literal to the nearest
  double is not modelled, nor is overflow or underflow (the literal \<open>1e309\<close> is infinite
  in JavaScript and keeps its exact value here). Negative zero is identified with zero.
\<close>

datatype number = NaN | Infinity | NegInfinity | Finite rat

text \<open>
  A thrown value: \<open>Error msg\<close> is an instance of \<open>Error\<close> (or a subclass) with that
  message, \<open>NotAnError\<close> is any other thrown value (\<open>error instanceof Error\<close> is false).
\<close>

datatype thrown = Error string | NotAnError

fun instanceofError :: "thrown \<Rightarrow> bool" where
  "instanceofError (Error m) = True"
| "instanceofError NotAnError = False"

text \<open>
  A parsed JSON value. An object keeps its members in the order of the text; when a key
  occurs twice, a property read returns the later member.
\<close>

datatype json =
  JNull | JBool bool | JNum number | JStr string | JArr "json list" | JObj "(string \<times> json) list"

text \<open>
  The value of a property of a normalized product, and the product as its ordered
  key/value pairs. \<open>VInt\<close> is a number that is an integer, \<open>VUndefined\<close> is \<open>undefined\<close>
  (which \<open>JSON.stringify\<close> leaves out of a request body) and \<open>VOther\<close> is an array or an
  object.
\<close>

datatype val =
  VNull | VInt int | VNum number | VStr string | VBool bool | VUndefined | VOther json

type_synonym json_object = "(string \<times> val) list"

subsection \<open>Decimal digits\<close>

definition isDigit :: "char \<Rightarrow> bool" where
  "isDigit c = (48 \<le> (of_char c :: nat) \<and> (of_char c :: nat) \<le> 57)"

definition digitVal :: "char \<Rightarrow> nat" where
  "digitVal c = of_char c - 48"

definition digitsVal :: "string \<Rightarrow> nat" where
  "digitsVal ds = foldl (\<lambda>acc c. 10 * acc + digitVal c) 0 ds"

definition digitChar :: "nat \<Rightarrow> char" where
  "digitChar d = char_of (48 + d)"

text \<open>The decimal numeral of a natural number, as template literals print an integer.\<close>

function natToString :: "nat \<Rightarrow> string" where
  "natToString n = (if n < 10 then [digitChar n] else natToString (n div 10) @ [digitChar (n mod 10)])"
  by pat_completeness auto
termination
  by (relation "measure id") auto

declare natToString.simps [simp del]

subsection \<open>\<open>String.prototype.endsWith\<close> and \<open>parseFloat\<close>\<close>

definition endsWith :: "string \<Rightarrow> string \<Rightarrow> bool" where
  "endsWith s suffix =
     (length suffix \<le> length s \<and> drop (length s - length suffix) s = suffix)"

text \<open>
  The number of bytes of the white space or line terminator character at the head of a
  string (0 when there is none): TAB, LF, VT, FF, CR, SP, U+00A0, U+1680, U+2000 to U+200A,
  U+2028, U+2029, U+202F, U+205F, U+3000 and U+FEFF.
\<close>

definition whiteSpaceLength :: "string \<Rightarrow> nat" where
  "whiteSpaceLength s =
     (if take 1 s \<in> set [[CHR 0x09], [CHR 0x0A], [CHR 0x0B], [CHR 0x0C], [CHR 0x0D], [CHR 0x20]]
      then 1
      else if take 2 s = [CHR 0xC2, CHR 0xA0] then 2
      else if take 3 s = [CHR 0xE1, CHR 0x9A, CHR 0x80] then 3
      else if take 2 s = [CHR 0xE2, CHR 0x80] \<and> length s \<ge> 3 \<and>
              ((0x80::nat) \<le> of_char (s ! 2) \<and> (of_char (s ! 2) :: nat) \<le> 0x8A
               \<or> s ! 2 = CHR 0xA8 \<or> s ! 2 = CHR 0xA9 \<or> s ! 2 = CHR 0xAF) then 3
      else if take 3 s = [CHR 0xE2, CHR 0x81, CHR 0x9F] then 3
      else if take 3 s = [CHR 0xE3, CHR 0x80, CHR 0x80] then 3
      else if take 3 s = [CHR 0xEF, CHR 0xBB, CHR 0xBF] then 3
      else 0)"

function trimStart :: "string \<Rightarrow> string" where
  "trimStart s = (if whiteSpaceLength s = 0 then s else trimStart (drop (whiteSpaceLength s) s))"
  by pat_completeness auto
termination
proof (relation "measure length")
  show "wf (measure length)" by simp
next
  fix s :: string
  assume "whiteSpaceLength s \<noteq> 0"
  moreover have "whiteSpaceLength s \<noteq> 0 \<Longrightarrow> s \<noteq> []"
    by (auto simp: whiteSpaceLength_def)
  ultimately show "(drop (whiteSpaceLength s) s, s) \<in> measure length"
    by simp
qed

declare trimStart.simps [simp del]

text \<open>
  The exponent part \<open>e\<close> or \<open>E\<close>, an optional sign and at least one digit; without a
  digit the longest literal prefix ends before the \<open>e\<close> and the exponent is 0.
\<close>

definition exponentPart :: "string \<Rightarrow> int" where
  "exponentPart s =
     (case s of
        [] \<Rightarrow> 0
      | c # t \<Rightarrow>
          if c = CHR ''e'' \<or> c = CHR ''E'' then
            (case t of
               [] \<Rightarrow> 0
             | d # u \<Rightarrow>
                 if d = CHR ''-'' then - int (digitsVal (takeWhile isDigit u))
                 else if d = CHR ''+'' then int (digitsVal (takeWhile isDigit u))
                 else int (digitsVal (takeWhile isDigit t)))
          else 0)"

definition scale10 :: "rat \<Rightarrow> int \<Rightarrow> rat" where
  "scale10 m e = (if 0 \<le> e then m * 10 ^ nat e else m / 10 ^ nat (- e))"

text \<open>
  The value of the longest prefix that is a \<open>StrUnsignedDecimalLiteral\<close>: \<open>Infinity\<close>,
  digits with an optional fraction and exponent, or a fraction that starts with the point.
  \<open>None\<close> when no prefix is one.
\<close>

definition parseUnsigned :: "string \<Rightarrow> number option" where
  "parseUnsigned s =
     (if take 8 s = ''Infinity'' then Some Infinity
      else
        let ip = takeWhile isDigit s;
            r1 = dropWhile isDigit s;
            fp = (case r1 of [] \<Rightarrow> [] | c # t \<Rightarrow> if c = CHR ''.'' then takeWhile isDigit t else []);
            r2 = (case r1 of [] \<Rightarrow> [] | c # t \<Rightarrow> if c = CHR ''.'' then dropWhile isDigit t else r1)
        in if ip = [] \<and> fp = [] then None
           else Some (Finite (scale10
                  (of_nat (digitsVal ip) + of_nat (digitsVal fp) / 10 ^ length fp)
                  (exponentPart r2))))"

fun negate :: "number \<Rightarrow> number" where
  "negate NaN = NaN"
| "negate Infinity = NegInfinity"
| "negate NegInfinity = Infinity"
| "negate (Finite x) = Finite (- x)"

definition parseFloat :: "string \<Rightarrow> number" where
  "parseFloat s =
     (let t = trimStart s in
      case t of
        [] \<Rightarrow> NaN
      | c # r \<Rightarrow>
          if c = CHR ''-'' then (case parseUnsigned r of None \<Rightarrow> NaN | Some v \<Rightarrow> negate v)
          else if c = CHR ''+'' then (case parseUnsigned r of None \<Rightarrow> NaN | Some v \<Rightarrow> v)
          else (case parseUnsigned t of None \<Rightarrow> NaN | Some v \<Rightarrow> v))"

section \<open>The remote catalog client (\<open>src/lib/woocommerce.ts\<close>)\<close>

text \<open>
  A record of the remote listing, at its declared interface \<open>WooCommerceProduct\<close>.
  \<open>wc_images\<close> holds the \<open>src\<close> of each image and \<open>wc_categories\<close> the \<open>name\<close> of
  each category, in order.
\<close>

record WooCommerceProduct =
  wc_id :: int
  wc_name :: string
  wc_price :: string
  wc_description :: string
  wc_images :: "string list"
  wc_categories :: "string list"
  wc_status :: string

text \<open>The row of table \<open>company_settings\<close>.\<close>

record CompanySettings =
  company_name :: string
  logo_url :: "string option"
  contact_phone :: "string option"
  contact_email :: "string option"
  woocommerce_url :: string
  woocommerce_key :: string
  woocommerce_secret :: string

text \<open>The answer \<open>{ data, error }\<close> of a store query.\<close>

record 'a reply =
  data :: "'a option"
  error :: "thrown option"

text \<open>
  The body of an HTTP response after \<open>response.json()\<close>: \<open>Records\<close> is an array whose
  elements are all at the declared interface, \<open>Elements\<close> is any array, with its elements
  as they were parsed, and \<open>NotAnArray\<close> is any other JSON value.
\<close>

datatype payload = Records "WooCommerceProduct list" | Elements "json list" | NotAnArray

record Response =
  status :: nat
  bodyText :: string
  json :: "thrown + payload"

definition ok :: "Response \<Rightarrow> bool" where
  "ok response = (200 \<le> status response \<and> status response \<le> 299)"

text \<open>
  What the catalog client reads from outside: the answer of
  \<open>from('company_settings').select(...).single()\<close>, the browser's \<open>btoa\<close> and the browser's
  \<open>fetch\<close>, which takes the URL and the headers and resolves to a response or rejects.
\<close>

record remote_env =
  settingsSingle :: "CompanySettings reply"
  btoa :: "string \<Rightarrow> thrown + string"
  fetch :: "string \<Rightarrow> (string \<times> string) list \<Rightarrow> thrown + Response"

definition baseUrl :: "string \<Rightarrow> string" where
  "baseUrl url = (if endsWith url ''/'' then url else url @ ''/'')"

definition apiUrl :: "string \<Rightarrow> string" where
  "apiUrl url = baseUrl url @ ''wp-json/wc/v3/products?per_page=100''"

text \<open>\<open>a || b\<close> on strings: the empty string is falsy.\<close>

definition orElse :: "string \<Rightarrow> string \<Rightarrow> string" where
  "orElse a b = (if a = [] then b else a)"

text \<open>\<open>xs[0]?.field || null\<close> on the list of the field's values.\<close>

definition firstOrNull :: "string list \<Rightarrow> val" where
  "firstOrNull xs = (case xs of [] \<Rightarrow> VNull | x # _ \<Rightarrow> if x = [] then VNull else VStr x)"

text \<open>The callback of \<open>products.map\<close>: the object literal, key by key.\<close>

definition normalizeProduct :: "WooCommerceProduct \<Rightarrow> json_object" where
  "normalizeProduct product =
     [(''woo_id'', VInt (wc_id product)),
      (''name'', VStr (wc_name product)),
      (''price'', VNum (parseFloat (orElse (wc_price product) ''0''))),
      (''description'', VStr (wc_description product)),
      (''image_url'', firstOrNull (wc_images product)),
      (''category'', firstOrNull (wc_categories product)),
      (''is_active'', VBool (wc_status product = ''publish''))]"

text \<open>
  The same callback on an element as it was parsed, where nothing holds the element to the
  declared interface. \<open>propertyTypeError\<close> is the \<open>TypeError\<close> of reading a property of
  \<open>null\<close> or \<open>undefined\<close>; its message is the engine's, here in the wording of V8.
\<close>

definition propertyTypeError :: "string \<Rightarrow> string \<Rightarrow> thrown" where
  "propertyTypeError receiver prop =
     Error (''Cannot read properties of '' @ receiver @ '' (reading '' @ [CHR 0x27] @ prop
            @ [CHR 0x27] @ '')'')"

text \<open>
  \<open>v.key\<close> and \<open>v?.key\<close> for one of the keys the callback reads (\<open>id\<close>, \<open>name\<close>, \<open>price\<close>,
  \<open>description\<close>, \<open>images\<close>, \<open>categories\<close>, \<open>status\<close>, \<open>src\<close>): an object gives its member,
  and an array, a string, a number or a boolean has no property of these names. \<open>None\<close> is
  \<open>undefined\<close>. On \<open>null\<close>, \<open>v?.key\<close> is \<open>undefined\<close> too, and \<open>v.key\<close> throws, which
  \<open>normalizeElement\<close> writes out.
\<close>

fun getProperty :: "json \<Rightarrow> string \<Rightarrow> json option" where
  "getProperty (JObj members) key = map_of (rev members) key"
| "getProperty v key = None"

text \<open>
  \<open>v[0]?.field\<close>: reading \<open>[0]\<close> of \<open>undefined\<close> or \<open>null\<close> throws; an array gives its first
  element and an object its member \<open>0\<close>, of which the field is read; the first letter of a
  string has no such field, and a number or a boolean has no element \<open>0\<close>.
\<close>

fun firstField :: "string \<Rightarrow> json option \<Rightarrow> thrown + json option" where
  "firstField field None = Inl (propertyTypeError ''undefined'' ''0'')"
| "firstField field (Some JNull) = Inl (propertyTypeError ''null'' ''0'')"
| "firstField field (Some (JArr [])) = Inr None"
| "firstField field (Some (JArr (x # xs))) = Inr (getProperty x field)"
| "firstField field (Some (JObj members)) =
     Inr (case map_of (rev members) ''0'' of None \<Rightarrow> None | Some x \<Rightarrow> getProperty x field)"
| "firstField field (Some v) = Inr None"

text \<open>The truthy values: all but \<open>undefined\<close>, \<open>null\<close>, \<open>false\<close>, 0, \<open>NaN\<close> and the empty string.\<close>

fun truthyJson :: "json option \<Rightarrow> bool" where
  "truthyJson None = False"
| "truthyJson (Some JNull) = False"
| "truthyJson (Some (JBool b)) = b"
| "truthyJson (Some (JNum n)) = (n \<noteq> NaN \<and> n \<noteq> Finite 0)"
| "truthyJson (Some (JStr s)) = (s \<noteq> [])"
| "truthyJson (Some (JArr xs)) = True"
| "truthyJson (Some (JObj members)) = True"

fun toVal :: "json option \<Rightarrow> val" where
  "toVal None = VUndefined"
| "toVal (Some JNull) = VNull"
| "toVal (Some (JBool b)) = VBool b"
| "toVal (Some (JNum (Finite q))) = (if of_int \<lfloor>q\<rfloor> = q then VInt \<lfloor>q\<rfloor> else VNum (Finite q))"
| "toVal (Some (JNum n)) = VNum n"
| "toVal (Some (JStr s)) = VStr s"
| "toVal (Some v) = VOther v"

text \<open>\<open>v || null\<close>.\<close>

definition orNull :: "json option \<Rightarrow> val" where
  "orNull v = (if truthyJson v then toVal v else VNull)"

text \<open>
  \<open>parseFloat\<close> of a value first takes its \<open>ToString\<close> and reads the longest decimal literal
  at its head. A string is read as it is. A number gives itself: its \<open>ToString\<close> is a
  decimal literal that reads back as the number. An array gives what its first element
  gives: its \<open>ToString\<close> joins the elements with commas, and a comma ends every literal. The
  \<open>ToString\<close> of \<open>true\<close>, \<open>false\<close>, \<open>null\<close>, an object and the empty array starts with no
  literal.
\<close>

fun parseFloatOf :: "json \<Rightarrow> number" where
  "parseFloatOf (JStr s) = parseFloat s"
| "parseFloatOf (JNum n) = n"
| "parseFloatOf (JArr (x # xs)) = parseFloatOf x"
| "parseFloatOf v = NaN"

text \<open>\<open>parseFloat(v || '0')\<close>.\<close>

definition priceOf :: "json option \<Rightarrow> number" where
  "priceOf v = (if truthyJson v then parseFloatOf (the v) else parseFloat ''0'')"

text \<open>
  The callback on a parsed element. The properties of the object literal are evaluated in
  their order: \<open>product.id\<close> throws when the element is \<open>null\<close>; \<open>product.images[0]\<close> and
  then \<open>product.categories[0]\<close> throw when the list is missing or \<open>null\<close>.
\<close>

definition normalizeElement :: "json \<Rightarrow> thrown + json_object" where
  "normalizeElement product =
     (if product = JNull then Inl (propertyTypeError ''null'' ''id'')
      else case firstField ''src'' (getProperty product ''images'') of
        Inl e \<Rightarrow> Inl e
      | Inr src \<Rightarrow>
          (case firstField ''name'' (getProperty product ''categories'') of
             Inl e \<Rightarrow> Inl e
           | Inr categoryName \<Rightarrow>
               Inr [(''woo_id'', toVal (getProperty product ''id'')),
                    (''name'', toVal (getProperty product ''name'')),
                    (''price'', VNum (priceOf (getProperty product ''price''))),
                    (''description'', toVal (getProperty product ''description'')),
                    (''image_url'', orNull src),
                    (''category'', orNull categoryName),
                    (''is_active'',
                       VBool (getProperty product ''status'' = Some (JStr ''publish'')))]))"

text \<open>\<open>products.map\<close> over parsed elements: the first element that throws ends the call.\<close>

fun normalizeElements :: "json list \<Rightarrow> thrown + json_object list" where
  "normalizeElements [] = Inr []"
| "normalizeElements (x # xs) =
     (case normalizeElement x of
        Inl e \<Rightarrow> Inl e
      | Inr row \<Rightarrow>
          (case normalizeElements xs of Inl e \<Rightarrow> Inl e | Inr rows \<Rightarrow> Inr (row # rows)))"

text \<open>The JSON of a record at the declared interface.\<close>

definition encodeProduct :: "WooCommerceProduct \<Rightarrow> json" where
  "encodeProduct product =
     JObj [(''id'', JNum (Finite (of_int (wc_id product)))),
           (''name'', JStr (wc_name product)),
           (''price'', JStr (wc_price product)),
           (''description'', JStr (wc_description product)),
           (''images'', JArr (map (\<lambda>s. JObj [(''src'', JStr s)]) (wc_images product))),
           (''categories'', JArr (map (\<lambda>n. JObj [(''name'', JStr n)]) (wc_categories product))),
           (''status'', JStr (wc_status product))]"

definition settingsLoadError :: thrown where
  "settingsLoadError = Error (''Erro ao carregar configura'' @ c_cedilla @ o_tilde
     @ ''es do WooCommerce. Por favor, configure primeiro.'')"

definition settingsNotFoundError :: thrown where
  "settingsNotFoundError = Error (''Configura'' @ c_cedilla @ o_tilde
     @ ''es do WooCommerce n'' @ a_tilde @ ''o encontradas. Por favor, configure primeiro.'')"

definition apiError :: "nat \<Rightarrow> string \<Rightarrow> thrown" where
  "apiError st errorText =
     Error (''Erro na API do WooCommerce: '' @ natToString st @ '' - '' @ errorText)"

definition invalidResponseError :: thrown where
  "invalidResponseError = Error (''Resposta inv'' @ a_acute @ ''lida da API do WooCommerce'')"

definition unknownSyncError :: thrown where
  "unknownSyncError = Error ''Erro desconhecido ao sincronizar produtos''"

text \<open>The body of the \<open>try\<close> block: each \<open>throw\<close> and each rejected \<open>await\<close> is an \<open>Inl\<close>.\<close>

definition syncProductsTry :: "remote_env \<Rightarrow> thrown + json_object list" where
  "syncProductsTry env =
     (if error (settingsSingle env) \<noteq> None then Inl settingsLoadError
      else case data (settingsSingle env) of
        None \<Rightarrow> Inl settingsNotFoundError
      | Some settings \<Rightarrow>
          (case btoa env (woocommerce_key settings @ '':'' @ woocommerce_secret settings) of
             Inl e \<Rightarrow> Inl e
           | Inr token \<Rightarrow>
               (case fetch env (apiUrl (woocommerce_url settings))
                       [(''Authorization'', ''Basic '' @ token),
                        (''Content-Type'', ''application/json'')] of
                  Inl e \<Rightarrow> Inl e
                | Inr response \<Rightarrow>
                    if \<not> ok response then Inl (apiError (status response) (bodyText response))
                    else (case json response of
                            Inl e \<Rightarrow> Inl e
                          | Inr NotAnArray \<Rightarrow> Inl invalidResponseError
                          | Inr (Records products) \<Rightarrow> Inr (map normalizeProduct products)
                          | Inr (Elements products) \<Rightarrow> normalizeElements products))))"

text \<open>The \<open>catch\<close> block rethrows an \<open>Error\<close> as it is and replaces any other value.\<close>

definition syncProducts :: "remote_env \<Rightarrow> thrown + json_object list" where
  "syncProducts env =
     (case syncProductsTry env of
        Inl e \<Rightarrow> Inl (if instanceofError e then e else unknownSyncError)
      | Inr rows \<Rightarrow> Inr rows)"

section \<open>The document renderer (\<open>src/lib/pdf.ts\<close>)\<close>

record Product =
  p_name :: string
  p_price :: number
  p_category :: "string option"

text \<open>
  The local calendar fields of a \<open>Date\<close>, as \<open>format\<close> of date-fns reads them; \<open>month\<close>
  counts from 1.
\<close>

record Date =
  year :: nat
  month :: nat
  day :: nat
  hours :: nat
  minutes :: nat
  seconds :: nat

definition addLeadingZeros :: "nat \<Rightarrow> nat \<Rightarrow> string" where
  "addLeadingZeros n targetLength =
     replicate (targetLength - length (natToString n)) (CHR ''0'') @ natToString n"

text \<open>\<open>format(date, 'dd/MM/yyyy')\<close>.\<close>

definition format_ddMMyyyy :: "Date \<Rightarrow> string" where
  "format_ddMMyyyy date =
     addLeadingZeros (day date) 2 @ ''/'' @ addLeadingZeros (month date) 2 @ ''/''
       @ addLeadingZeros (year date) 4"

text \<open>
  \<open>Number.prototype.toFixed(2)\<close> on a value \<open>x\<close> with \<open>0 \<le> x < 10^21\<close>, step by step: \<open>n\<close>
  is the integer for which \<open>n / 100 - x\<close> is closest to zero, the larger one on a tie;
  \<open>m\<close> is its decimal numeral, padded with zeros to three digits; the point goes before
  the last two digits.
\<close>

definition fixedDigits :: "rat \<Rightarrow> string" where
  "fixedDigits x =
     (let n = nat \<lfloor>x * 100 + 1 / 2\<rfloor>;
          m = natToString n;
          m = (if length m \<le> 2 then replicate (3 - length m) (CHR ''0'') @ m else m);
          k = length m
      in take (k - 2) m @ ''.'' @ drop (k - 2) m)"

text \<open>
  \<open>x.toFixed(2)\<close>. A value that is not finite prints as \<open>Number.prototype.toString\<close> does; a
  negative value prints the sign and then its magnitude; a magnitude of \<open>10^21\<close> or more
  prints in the exponent notation of \<open>toString\<close>, which depends on the double and is the
  parameter \<open>numberToString\<close>.
\<close>

definition toFixed2 :: "(rat \<Rightarrow> string) \<Rightarrow> number \<Rightarrow> string" where
  "toFixed2 numberToString x =
     (case x of
        NaN \<Rightarrow> ''NaN''
      | Infinity \<Rightarrow> ''Infinity''
      | NegInfinity \<Rightarrow> ''-Infinity''
      | Finite q \<Rightarrow>
          (if q < 0 then ''-'' else [])
            @ (if 10 ^ 21 \<le> \<bar>q\<bar> then numberToString \<bar>q\<bar> else fixedDigits \<bar>q\<bar>))"

text \<open>
  The jsPDF document: the font size in effect and what has been drawn, in drawing order.
  A text item keeps its string, position, alignment and the font size it was drawn with;
  a table item keeps the options \<open>autoTable\<close> was called with.
\<close>

datatype align = AlignLeft | AlignCenter | AlignRight

record autoTableOptions =
  head :: "string list list"
  body :: "string list list"
  startY :: rat
  theme :: string
  styles_fontSize :: nat
  styles_cellPadding :: nat
  headStyles_fillColor :: "nat list"
  headStyles_textColor :: nat

datatype item = TextItem string rat rat align nat | TableItem autoTableOptions

text \<open>
  A new document is stamped by jsPDF with a file identifier, drawn at random, and with its
  creation date, read from the clock to the second; both are written into the file.
\<close>

record jsPDF =
  fileId :: string
  creationDate :: Date
  fontSize :: nat
  items :: "item list"

text \<open>
  What the renderer reads from outside its arguments: the page size of a new document,
  \<open>new Date()\<close>, the library's printing of numbers of magnitude \<open>10^21\<close> or more, and what
  \<open>new jsPDF()\<close> reads: the random file identifier and the clock.
\<close>

record pdf_env =
  pageWidth :: rat
  pageHeight :: rat
  today :: Date
  numberToString :: "rat \<Rightarrow> string"
  randomFileId :: string
  createdAt :: Date

definition newJsPDF :: "pdf_env \<Rightarrow> jsPDF" where
  "newJsPDF env =
     \<lparr> fileId = randomFileId env, creationDate = createdAt env, fontSize = 16, items = [] \<rparr>"

definition setFontSize :: "nat \<Rightarrow> jsPDF \<Rightarrow> jsPDF" where
  "setFontSize n doc = doc \<lparr> fontSize := n \<rparr>"

definition docText :: "string \<Rightarrow> rat \<Rightarrow> rat \<Rightarrow> align \<Rightarrow> jsPDF \<Rightarrow> jsPDF" where
  "docText s x y al doc = doc \<lparr> items := items doc @ [TextItem s x y al (fontSize doc)] \<rparr>"

definition autoTable :: "autoTableOptions \<Rightarrow> jsPDF \<Rightarrow> jsPDF" where
  "autoTable options doc = doc \<lparr> items := items doc @ [TableItem options] \<rparr>"

text \<open>A truthy optional string: present and not empty.\<close>

definition truthy :: "string option \<Rightarrow> bool" where
  "truthy s = (case s of None \<Rightarrow> False | Some t \<Rightarrow> t \<noteq> [])"

text \<open>The callback of \<open>products.map\<close> that builds one table row.\<close>

definition tableRow :: "(rat \<Rightarrow> string) \<Rightarrow> Product \<Rightarrow> string list" where
  "tableRow nts product =
     [p_name product,
      (if truthy (p_category product) then the (p_category product) else ''-''),
      ''R$ '' @ toFixed2 nts (p_price product)]"

definition addFooterPhone :: "pdf_env \<Rightarrow> CompanySettings \<Rightarrow> jsPDF \<Rightarrow> jsPDF" where
  "addFooterPhone env companyInfo doc =
     (if truthy (contact_phone companyInfo)
      then docText (''Tel: '' @ the (contact_phone companyInfo)) 20 (pageHeight env - 20)
             AlignLeft doc
      else doc)"

definition addFooterEmail :: "pdf_env \<Rightarrow> CompanySettings \<Rightarrow> jsPDF \<Rightarrow> jsPDF" where
  "addFooterEmail env companyInfo doc =
     (if truthy (contact_email companyInfo)
      then docText (''Email: '' @ the (contact_email companyInfo)) (pageWidth env - 20)
             (pageHeight env - 20) AlignRight doc
      else doc)"

text \<open>
  \<open>doc.output('blob')\<close>: the bytes of the PDF file. jsPDF writes into them the file
  identifier, the creation date and the drawn items, so the blob is modelled by these
  three: two blobs that differ in one of them are different files.
\<close>

record blob =
  blobFileId :: string
  blobCreationDate :: Date
  drawn :: "item list"

definition outputBlob :: "jsPDF \<Rightarrow> blob" where
  "outputBlob doc =
     \<lparr> blobFileId = fileId doc, blobCreationDate = creationDate doc, drawn = items doc \<rparr>"

definition generateProductCatalog :: "pdf_env \<Rightarrow> Product list \<Rightarrow> CompanySettings \<Rightarrow> blob" where
  "generateProductCatalog env products companyInfo =
     (let doc = newJsPDF env;
          doc = setFontSize 20 doc;
          doc = docText (company_name companyInfo) (pageWidth env / 2) 20 AlignCenter doc;
          doc = setFontSize 12 doc;
          doc = docText (''Cat'' @ a_acute @ ''logo de Produtos - '' @ format_ddMMyyyy (today env))
                  (pageWidth env / 2) 30 AlignCenter doc;
          tableData = map (tableRow (numberToString env)) products;
          doc = autoTable
                  \<lparr> head = [[''Produto'', ''Categoria'', ''Pre'' @ c_cedilla @ ''o'']],
                    body = tableData,
                    startY = 40,
                    theme = ''grid'',
                    styles_fontSize = 10,
                    styles_cellPadding = 5,
                    headStyles_fillColor = [41, 128, 185],
                    headStyles_textColor = 255 \<rparr> doc;
          doc = setFontSize 10 doc;
          doc = addFooterPhone env companyInfo doc;
          doc = addFooterEmail env companyInfo doc
      in outputBlob doc)"

subsection \<open>The renderer on a heap\<close>

text \<open>
  The same function with its arguments passed by reference, as JavaScript passes them: the
  heap holds the \<open>products\<close> array, its product objects and the \<open>companyInfo\<close> object, and
  the function receives their addresses. An address is an index of the heap. The function
  allocates the document and the \<open>tableData\<close> array, writes the document only, and reads
  its arguments. A read of an address that does not hold an object of the expected kind
  has no value.
\<close>

datatype heap_object =
  ProductArray "nat list"
  | ProductObject Product
  | CompanyInfoObject CompanySettings
  | TableData "string list list"
  | Document jsPDF

type_synonym heap = "heap_object list"

definition allocate :: "heap_object \<Rightarrow> heap \<Rightarrow> nat \<times> heap" where
  "allocate obj h = (length h, h @ [obj])"

definition readProduct :: "heap \<Rightarrow> nat \<Rightarrow> Product option" where
  "readProduct h r =
     (if r < length h then (case h ! r of ProductObject p \<Rightarrow> Some p | _ \<Rightarrow> None) else None)"

definition readProducts :: "heap \<Rightarrow> nat \<Rightarrow> Product list option" where
  "readProducts h r =
     (if r < length h
      then (case h ! r of ProductArray refs \<Rightarrow> those (map (readProduct h) refs) | _ \<Rightarrow> None)
      else None)"

definition readCompanyInfo :: "heap \<Rightarrow> nat \<Rightarrow> CompanySettings option" where
  "readCompanyInfo h r =
     (if r < length h then (case h ! r of CompanyInfoObject c \<Rightarrow> Some c | _ \<Rightarrow> None) else None)"

definition readTableData :: "heap \<Rightarrow> nat \<Rightarrow> string list list option" where
  "readTableData h r =
     (if r < length h then (case h ! r of TableData rows \<Rightarrow> Some rows | _ \<Rightarrow> None) else None)"

definition readDocument :: "heap \<Rightarrow> nat \<Rightarrow> jsPDF option" where
  "readDocument h r =
     (if r < length h then (case h ! r of Document doc \<Rightarrow> Some doc | _ \<Rightarrow> None) else None)"

text \<open>A method call on the document: the only write the function makes.\<close>

definition updateDocument :: "nat \<Rightarrow> (jsPDF \<Rightarrow> jsPDF) \<Rightarrow> heap \<Rightarrow> heap option" where
  "updateDocument r f h =
     (case readDocument h r of None \<Rightarrow> None | Some doc \<Rightarrow> Some (h [r := Document (f doc)]))"

definition generateProductCatalogOnHeap ::
  "pdf_env \<Rightarrow> nat \<Rightarrow> nat \<Rightarrow> heap \<Rightarrow> (blob \<times> heap) option" where
  "generateProductCatalogOnHeap env products companyInfo h0 =
     (let (doc, h) = allocate (Document (newJsPDF env)) h0 in
      do {
        h \<leftarrow> updateDocument doc (setFontSize 20) h;
        company \<leftarrow> readCompanyInfo h companyInfo;
        h \<leftarrow> updateDocument doc
               (docText (company_name company) (pageWidth env / 2) 20 AlignCenter) h;
        h \<leftarrow> updateDocument doc (setFontSize 12) h;
        h \<leftarrow> updateDocument doc
               (docText (''Cat'' @ a_acute @ ''logo de Produtos - '' @ format_ddMMyyyy (today env))
                  (pageWidth env / 2) 30 AlignCenter) h;
        productList \<leftarrow> readProducts h products;
        (tableData, h) \<leftarrow> Some (allocate (TableData (map (tableRow (numberToString env)) productList)) h);
        rows \<leftarrow> readTableData h tableData;
        h \<leftarrow> updateDocument doc
               (autoTable
                  \<lparr> head = [[''Produto'', ''Categoria'', ''Pre'' @ c_cedilla @ ''o'']],
                    body = rows,
                    startY = 40,
                    theme = ''grid'',
                    styles_fontSize = 10,
                    styles_cellPadding = 5,
                    headStyles_fillColor = [41, 128, 185],
                    headStyles_textColor = 255 \<rparr>) h;
        h \<leftarrow> updateDocument doc (setFontSize 10) h;
        company \<leftarrow> readCompanyInfo h companyInfo;
        h \<leftarrow> updateDocument doc (addFooterPhone env company) h;
        company \<leftarrow> readCompanyInfo h companyInfo;
        h \<leftarrow> updateDocument doc (addFooterEmail env company) h;
        final \<leftarrow> readDocument h doc;
        Some (outputBlob final, h)
      })"

section \<open>The catalog store\<close>

text \<open>
  A row of table \<open>products\<close>, which is also an element of the list the product page keeps
  (\<open>ProductDetails\<close>). \<open>row_id\<close> is column \<open>id\<close>.
\<close>

record ProductDetails =
  row_id :: string
  woo_id :: int
  name :: string
  price :: number
  catalog_price :: "number option"
  description :: "string option"
  image_url :: "string option"
  category :: "string option"
  is_active :: bool
  last_synced_at :: string
  created_at :: string
  updated_at :: string

text \<open>
  Modelled from the spec: the Supabase client (\<open>src/lib/supabase\<close>) and the store behind
  it are not among the source files. The spec requires of the store
  \<open>upsertByKey(key, fields)\<close> with merge-not-replace semantics: a column-level merge that
  writes the columns the payload carries and leaves every other column of an existing row
  as it is. \<open>setColumn\<close> writes one column of a payload into a row; a value of the wrong
  type for the column is not written.
\<close>

definition setColumn :: "string \<Rightarrow> val \<Rightarrow> ProductDetails \<Rightarrow> ProductDetails" where
  "setColumn c v r =
     (if c = ''id'' then (case v of VStr s \<Rightarrow> r \<lparr> row_id := s \<rparr> | _ \<Rightarrow> r)
      else if c = ''woo_id'' then (case v of VInt i \<Rightarrow> r \<lparr> woo_id := i \<rparr> | _ \<Rightarrow> r)
      else if c = ''name'' then (case v of VStr s \<Rightarrow> r \<lparr> name := s \<rparr> | _ \<Rightarrow> r)
      else if c = ''price'' then (case v of VNum n \<Rightarrow> r \<lparr> price := n \<rparr> | _ \<Rightarrow> r)
      else if c = ''catalog_price'' then
        (case v of VNum n \<Rightarrow> r \<lparr> catalog_price := Some n \<rparr>
                 | VNull \<Rightarrow> r \<lparr> catalog_price := None \<rparr> | _ \<Rightarrow> r)
      else if c = ''description'' then
        (case v of VStr s \<Rightarrow> r \<lparr> description := Some s \<rparr>
                 | VNull \<Rightarrow> r \<lparr> description := None \<rparr> | _ \<Rightarrow> r)
      else if c = ''image_url'' then
        (case v of VStr s \<Rightarrow> r \<lparr> image_url := Some s \<rparr>
                 | VNull \<Rightarrow> r \<lparr> image_url := None \<rparr> | _ \<Rightarrow> r)
      else if c = ''category'' then
        (case v of VStr s \<Rightarrow> r \<lparr> category := Some s \<rparr>
                 | VNull \<Rightarrow> r \<lparr> category := None \<rparr> | _ \<Rightarrow> r)
      else if c = ''is_active'' then (case v of VBool b \<Rightarrow> r \<lparr> is_active := b \<rparr> | _ \<Rightarrow> r)
      else if c = ''last_synced_at'' then
        (case v of VStr s \<Rightarrow> r \<lparr> last_synced_at := s \<rparr> | _ \<Rightarrow> r)
      else if c = ''created_at'' then (case v of VStr s \<Rightarrow> r \<lparr> created_at := s \<rparr> | _ \<Rightarrow> r)
      else if c = ''updated_at'' then (case v of VStr s \<Rightarrow> r \<lparr> updated_at := s \<rparr> | _ \<Rightarrow> r)
      else r)"

fun mergeRow :: "json_object \<Rightarrow> ProductDetails \<Rightarrow> ProductDetails" where
  "mergeRow [] r = r"
| "mergeRow ((c, v) # cols) r = mergeRow cols (setColumn c v r)"

text \<open>
  Modelled from the spec: \<open>upsertByKey\<close> with the conflict key \<open>woo_id\<close> for one payload.
  A row whose \<open>woo_id\<close> is the payload's is merged with it; when there is none, a row is
  inserted: the payload merged into the column defaults, which the store supplies
  (\<open>defaults\<close>, indexed by the number of rows before the insert).
\<close>

definition conflicts :: "json_object \<Rightarrow> ProductDetails \<Rightarrow> bool" where
  "conflicts cols r = (map_of cols ''woo_id'' = Some (VInt (woo_id r)))"

definition upsertByKey ::
  "(nat \<Rightarrow> ProductDetails) \<Rightarrow> ProductDetails list \<Rightarrow> json_object \<Rightarrow> ProductDetails list" where
  "upsertByKey defaults rows cols =
     (if list_ex (conflicts cols) rows
      then map (\<lambda>r. if conflicts cols r then mergeRow cols r else r) rows
      else rows @ [mergeRow cols (defaults (length rows))])"

definition upsert ::
  "(nat \<Rightarrow> ProductDetails) \<Rightarrow> json_object list \<Rightarrow> ProductDetails list \<Rightarrow> ProductDetails list" where
  "upsert defaults payloads rows = foldl (upsertByKey defaults) rows payloads"

section \<open>The product page (\<open>src/App.tsx\<close>)\<close>

text \<open>The state hooks of \<open>ProductList\<close>; \<open>errorMsg\<close> is the hook \<open>error\<close>.\<close>

record ui_state =
  products :: "ProductDetails list"
  selectedProducts :: "string fset"
  searchTerm :: string
  loading :: bool
  syncing :: bool
  errorMsg :: "string option"
  hasSettings :: "bool option"

text \<open>
  What the page reads from outside: the remote client's environment, the \<open>count\<close> of
  \<open>checkSettings\<close>, the \<open>error\<close> the store answers the upsert, the select of all products
  and the price update with, the store's column defaults for an inserted row,
  \<open>new Date().toISOString()\<close>, and the renderer's environment.
\<close>

record app_env =
  remote :: remote_env
  settingsCount :: "nat option"
  upsertError :: "thrown option"
  selectError :: "thrown option"
  updateError :: "thrown option"
  insertDefaults :: "nat \<Rightarrow> ProductDetails"
  toISOString :: string
  pdf :: pdf_env

text \<open>What an \<open>async\<close> function resolves to.\<close>

datatype resolved = Undefined | NumberValue nat

definition initialState :: ui_state where
  "initialState =
     \<lparr> products = [], selectedProducts = {||}, searchTerm = [], loading = True,
       syncing = False, errorMsg = None, hasSettings = None \<rparr>"

definition checkSettings :: "app_env \<Rightarrow> ui_state \<Rightarrow> ui_state" where
  "checkSettings env ui = ui \<lparr> hasSettings := Some (settingsCount env = Some 1) \<rparr>"

definition productsLoadMessage :: string where
  "productsLoadMessage = ''N'' @ a_tilde @ ''o foi poss'' @ [CHR 0xC3, CHR 0xAD]
     @ ''vel carregar os produtos. Por favor, verifique sua conex'' @ a_tilde
     @ ''o com o Supabase.''"

text \<open>\<open>fetchProducts\<close> reads the whole table; it catches its own failure.\<close>

definition fetchProducts :: "app_env \<Rightarrow> ProductDetails list \<Rightarrow> ui_state \<Rightarrow> ui_state" where
  "fetchProducts env rows ui =
     (case selectError env of
        Some e \<Rightarrow> ui \<lparr> loading := False, errorMsg := Some productsLoadMessage \<rparr>
      | None \<Rightarrow> ui \<lparr> loading := False, errorMsg := None, products := rows \<rparr>)"

record sync_result =
  storeRows :: "ProductDetails list"
  uiState :: ui_state
  resolvedTo :: resolved

definition configureFirstMessage :: string where
  "configureFirstMessage = ''Configure primeiro as informa'' @ c_cedilla @ o_tilde
     @ ''es do WooCommerce nas configura'' @ c_cedilla @ o_tilde @ ''es.''"

definition syncFailedMessage :: string where
  "syncFailedMessage = ''Erro ao sincronizar produtos do WooCommerce.''"

text \<open>The message of the \<open>catch\<close> block of \<open>handleSync\<close>.\<close>

fun caughtMessage :: "thrown \<Rightarrow> string" where
  "caughtMessage (Error m) = m"
| "caughtMessage NotAnError = syncFailedMessage"

text \<open>The payload of one product: \<open>{ ...product, updated_at: new Date().toISOString() }\<close>.\<close>

definition upsertPayload :: "app_env \<Rightarrow> json_object \<Rightarrow> json_object" where
  "upsertPayload env product = AList.update ''updated_at'' (VStr (toISOString env)) product"

definition handleSync :: "app_env \<Rightarrow> ProductDetails list \<Rightarrow> ui_state \<Rightarrow> sync_result" where
  "handleSync env rows ui =
     (if hasSettings ui \<noteq> Some True
      then \<lparr> storeRows = rows,
             uiState = ui \<lparr> errorMsg := Some configureFirstMessage \<rparr>,
             resolvedTo = Undefined \<rparr>
      else case syncProducts (remote env) of
        Inl e \<Rightarrow>
          \<lparr> storeRows = rows,
            uiState = ui \<lparr> syncing := False, errorMsg := Some (caughtMessage e) \<rparr>,
            resolvedTo = Undefined \<rparr>
      | Inr wooProducts \<Rightarrow>
          (case upsertError env of
             Some e \<Rightarrow>
               \<lparr> storeRows = rows,
                 uiState = ui \<lparr> syncing := False, errorMsg := Some (caughtMessage e) \<rparr>,
                 resolvedTo = Undefined \<rparr>
           | None \<Rightarrow>
               (let rows' = upsert (insertDefaults env) (map (upsertPayload env) wooProducts) rows
                in \<lparr> storeRows = rows',
                     uiState = (fetchProducts env rows' (ui \<lparr> errorMsg := None \<rparr>))
                                 \<lparr> syncing := False \<rparr>,
                     resolvedTo = Undefined \<rparr>)))"

definition handleProductSelect :: "string \<Rightarrow> ui_state \<Rightarrow> ui_state" where
  "handleProductSelect productId ui =
     ui \<lparr> selectedProducts :=
            (if productId |\<in>| selectedProducts ui
             then selectedProducts ui |-| {|productId|}
             else finsert productId (selectedProducts ui)) \<rparr>"

text \<open>
  \<open>handlePriceUpdate\<close>: the store sets \<open>catalog_price\<close> of the row with that \<open>id\<close>; when it
  answers no error the list of the page is updated the same way, otherwise an alert is
  shown and the state stays.
\<close>

definition setCatalogPrice :: "string \<Rightarrow> number \<Rightarrow> ProductDetails list \<Rightarrow> ProductDetails list" where
  "setCatalogPrice productId newCatalogPrice rows =
     map (\<lambda>p. if row_id p = productId then p \<lparr> catalog_price := Some newCatalogPrice \<rparr> else p) rows"

definition handlePriceUpdate ::
  "app_env \<Rightarrow> string \<Rightarrow> number \<Rightarrow> ProductDetails list \<Rightarrow> ui_state \<Rightarrow> ProductDetails list \<times> ui_state" where
  "handlePriceUpdate env productId newCatalogPrice rows ui =
     (case updateError env of
        Some e \<Rightarrow> (rows, ui)
      | None \<Rightarrow>
          (setCatalogPrice productId newCatalogPrice rows,
           ui \<lparr> products := setCatalogPrice productId newCatalogPrice (products ui) \<rparr>))"

text \<open>The cell of column \<open>Preco Catalogo\<close> of the product table, after the \<open>R$\<close>.\<close>

definition catalogPriceCell :: "ProductDetails \<Rightarrow> number" where
  "catalogPriceCell product =
     (case catalog_price product of Some c \<Rightarrow> c | None \<Rightarrow> price product)"

text \<open>The argument \<open>generatePDF\<close> builds for the renderer from one selected product.\<close>

definition toCatalogProduct :: "ProductDetails \<Rightarrow> Product" where
  "toCatalogProduct product =
     \<lparr> p_name = (if truthy (description product) then the (description product) else ''Sem nome''),
       p_price = price product,
       p_category = (if truthy (category product) then category product else None) \<rparr>"

text \<open>
  The outcome of \<open>generatePDF\<close>: the state of the page, the calls it made to the renderer
  (their arguments) and the files it offered for download (name and content). The
  renderer of this model always returns, so the \<open>catch\<close> block around its call has no
  branch here.
\<close>

record pdf_result =
  pageState :: ui_state
  rendererCalls :: "(Product list \<times> CompanySettings) list"
  downloads :: "(string \<times> blob) list"

definition selectAProductMessage :: string where
  "selectAProductMessage = ''Selecione pelo menos um produto para gerar o PDF.''"

definition settingsForPdfMessage :: string where
  "settingsForPdfMessage = ''N'' @ a_tilde @ ''o foi poss'' @ [CHR 0xC3, CHR 0xAD]
     @ ''vel carregar as configura'' @ c_cedilla @ o_tilde
     @ ''es da empresa para gerar o PDF.''"

definition generatePDF :: "app_env \<Rightarrow> ui_state \<Rightarrow> pdf_result" where
  "generatePDF env ui =
     (if fcard (selectedProducts ui) = 0
      then \<lparr> pageState = ui \<lparr> errorMsg := Some selectAProductMessage \<rparr>,
             rendererCalls = [], downloads = [] \<rparr>
      else if error (settingsSingle (remote env)) \<noteq> None
              \<or> data (settingsSingle (remote env)) = None
      then \<lparr> pageState = ui \<lparr> errorMsg := Some settingsForPdfMessage \<rparr>,
             rendererCalls = [], downloads = [] \<rparr>
      else
        (let companySettings = the (data (settingsSingle (remote env)));
             selectedProductList =
               filter (\<lambda>product. row_id product |\<in>| selectedProducts ui) (products ui);
             catalogProducts = map toCatalogProduct selectedProductList;
             pdfBlob = generateProductCatalog (pdf env) catalogProducts companySettings
         in \<lparr> pageState = ui,
              rendererCalls = [(catalogProducts, companySettings)],
              downloads = [(''catalogo-produtos.pdf'', pdfBlob)] \<rparr>))"

section \<open>Terms of the specification\<close>

text \<open>
  The specification's \<open>url with exactly one trailing slash\<close>: the url without the slashes
  it ends with, followed by one slash.
\<close>

definition stripTrailingSlashes :: "string \<Rightarrow> string" where
  "stripTrailingSlashes url = rev (dropWhile (\<lambda>c. c = CHR ''/'') (rev url))"

definition withOneTrailingSlash :: "string \<Rightarrow> string" where
  "withOneTrailingSlash url = stripTrailingSlashes url @ ''/''"

text \<open>
  A string starts with a decimal literal when, after leading white space and an optional
  sign, it starts with \<open>Infinity\<close>, with a digit, or with a point and a digit. What follows
  the literal is free: \<open>19,90\<close>, \<open>12abc\<close> and \<open>0x1A\<close> start with one, \<open>abc\<close> does not.
\<close>

definition unsignedPart :: "string \<Rightarrow> string" where
  "unsignedPart s =
     (case trimStart s of
        [] \<Rightarrow> []
      | c # r \<Rightarrow> if c = CHR ''-'' \<or> c = CHR ''+'' then r else c # r)"

definition startsWithDecimal :: "string \<Rightarrow> bool" where
  "startsWithDecimal s =
     (let u = unsignedPart s in
      take 8 u = ''Infinity''
      \<or> (case u of
            [] \<Rightarrow> False
          | c # r \<Rightarrow> isDigit c \<or> (c = CHR ''.'' \<and> (case r of [] \<Rightarrow> False | d # _ \<Rightarrow> isDigit d))))"


text \<open>
  An amount fixed to 2 decimals: the amount rounded to hundredths (half up on the
  magnitude), printed as its sign, its integer part, a point and two digits.
\<close>

definition twoDigits :: "nat \<Rightarrow> string" where
  "twoDigits n = [digitChar (n div 10 mod 10), digitChar (n mod 10)]"

definition fourDigits :: "nat \<Rightarrow> string" where
  "fourDigits n = twoDigits (n div 100) @ twoDigits (n mod 100)"

definition hundredths :: "rat \<Rightarrow> nat" where
  "hundredths q = nat \<lfloor>\<bar>q\<bar> * 100 + 1 / 2\<rfloor>"

definition fixedTo2Decimals :: "rat \<Rightarrow> string" where
  "fixedTo2Decimals q =
     (if q < 0 then ''-'' else []) @ natToString (hundredths q div 100) @ ''.''
       @ twoDigits (hundredths q mod 100)"

text \<open>The bodies of the tables of a document, and the items drawn after the table.\<close>

fun bodiesOf :: "item list \<Rightarrow> string list list list" where
  "bodiesOf [] = []"
| "bodiesOf (TextItem s x y al n # rest) = bodiesOf rest"
| "bodiesOf (TableItem options # rest) = body options # bodiesOf rest"

definition tableBodies :: "blob \<Rightarrow> string list list list" where
  "tableBodies file = bodiesOf (drawn file)"

definition footerItems :: "blob \<Rightarrow> item list" where
  "footerItems file = drop 3 (drawn file)"


fun alignOf :: "item \<Rightarrow> align option" where
  "alignOf (TextItem s x y al n) = Some al"
| "alignOf (TableItem options) = None"

text \<open>
  The columns a synchronization sends to the store, and the columns of a row that are not
  among them.
\<close>

definition syncedColumnNames :: "string list" where
  "syncedColumnNames =
     [''woo_id'', ''name'', ''price'', ''description'', ''image_url'', ''category'',
      ''is_active'', ''updated_at'']"

definition unsyncedColumns :: "ProductDetails \<Rightarrow> string \<times> number option \<times> string \<times> string" where
  "unsyncedColumns r = (row_id r, catalog_price r, last_synced_at r, created_at r)"

subsection \<open>Example data\<close>

definition exampleSettings :: CompanySettings where
  "exampleSettings =
     \<lparr> company_name = ''Acme'', logo_url = None, contact_phone = Some ''11 5555-0100'',
       contact_email = None, woocommerce_url = ''https://loja.example'',
       woocommerce_key = ''ck_1'', woocommerce_secret = ''cs_1'' \<rparr>"

definition exampleRemote :: "Response \<Rightarrow> remote_env" where
  "exampleRemote response =
     \<lparr> settingsSingle = \<lparr> data = Some exampleSettings, error = None \<rparr>,
       btoa = (\<lambda>s. Inr ''Y2tfMTpjc18x''),
       fetch = (\<lambda>url headers. Inr response) \<rparr>"

definition exampleDate :: Date where
  "exampleDate = \<lparr> year = 2025, month = 1, day = 22, hours = 13, minutes = 43, seconds = 37 \<rparr>"

definition examplePdfEnv :: pdf_env where
  "examplePdfEnv =
     \<lparr> pageWidth = 210, pageHeight = 297, today = exampleDate, numberToString = (\<lambda>q. []),
       randomFileId = ''5F3A9C0E7B1D42A68C4E0F9A2B7D6E11'', createdAt = exampleDate \<rparr>"

definition exampleDefaults :: "nat \<Rightarrow> ProductDetails" where
  "exampleDefaults n =
     \<lparr> row_id = ''row-'' @ natToString n, woo_id = 0, name = [], price = Finite 0,
       catalog_price = None, description = None, image_url = None, category = None,
       is_active = True, last_synced_at = ''2025-01-22T13:43:37.000Z'',
       created_at = ''2025-01-22T13:43:37.000Z'', updated_at = ''2025-01-22T13:43:37.000Z'' \<rparr>"

definition exampleEnv :: "Response \<Rightarrow> app_env" where
  "exampleEnv response =
     \<lparr> remote = exampleRemote response, settingsCount = Some 1, upsertError = None,
       selectError = None, updateError = None, insertDefaults = exampleDefaults,
       toISOString = ''2025-01-22T13:43:37.000Z'', pdf = examplePdfEnv \<rparr>"

definition exampleRow :: ProductDetails where
  "exampleRow =
     \<lparr> row_id = ''row-0'', woo_id = 7, name = ''Widget'', price = Finite 10,
       catalog_price = Some (Finite 8), description = Some ''Widget'', image_url = None,
       category = Some ''Tools'', is_active = True,
       last_synced_at = ''2025-01-01T00:00:00.000Z'',
       created_at = ''2025-01-01T00:00:00.000Z'', updated_at = ''2025-01-01T00:00:00.000Z'' \<rparr>"

definition exampleWooProduct :: "string \<Rightarrow> WooCommerceProduct" where
  "exampleWooProduct priceString =
     \<lparr> wc_id = 7, wc_name = ''Widget'', wc_price = priceString, wc_description = ''Widget'',
       wc_images = [], wc_categories = [''Tools''], wc_status = ''publish'' \<rparr>"

definition exampleResponse :: "nat \<Rightarrow> string \<Rightarrow> payload \<Rightarrow> Response" where
  "exampleResponse st errorText content =
     \<lparr> status = st, bodyText = errorText, json = Inr content \<rparr>"

definition exampleWidget :: Product where
  "exampleWidget = \<lparr> p_name = ''Widget'', p_price = Finite (199 / 10), p_category = Some ''Tools'' \<rparr>"

definition exampleHeap :: heap where
  "exampleHeap =
     [ProductObject exampleWidget, ProductArray [0], CompanyInfoObject exampleSettings]"

section \<open>Verified properties\<close>

subsection \<open>The request URL\<close>

lemma endsWith_slash: "endsWith s ''/'' = (s \<noteq> [] \<and> last s = CHR ''/'')"
proof (cases s rule: rev_cases)
  case Nil
  then show ?thesis by (simp add: endsWith_def)
next
  case (snoc xs x)
  then show ?thesis by (auto simp: endsWith_def)
qed

lemma endsWith_two_slashes:
  "endsWith (xs @ [a, b]) ''//'' = (a = CHR ''/'' \<and> b = CHR ''/'')"
  by (auto simp: endsWith_def)

lemma baseUrl_one_slash:
  assumes "\<not> endsWith url ''//''"
  shows "baseUrl url = withOneTrailingSlash url"
proof (cases url rule: rev_cases)
  case Nil
  then show ?thesis
    by (simp add: baseUrl_def endsWith_def withOneTrailingSlash_def stripTrailingSlashes_def)
next
  case (snoc xs b)
  show ?thesis
  proof (cases "b = CHR ''/''")
    case False
    with snoc show ?thesis
      by (simp add: baseUrl_def endsWith_slash withOneTrailingSlash_def stripTrailingSlashes_def)
  next
    case True
    show ?thesis
    proof (cases xs rule: rev_cases)
      case Nil
      with snoc True show ?thesis
        by (simp add: baseUrl_def endsWith_slash withOneTrailingSlash_def stripTrailingSlashes_def)
    next
      case (snoc ys a)
      with \<open>url = xs @ [b]\<close> True assms have "a \<noteq> CHR ''/''"
        using endsWith_two_slashes [of ys a b] by simp
      with snoc \<open>url = xs @ [b]\<close> True show ?thesis
        by (simp add: baseUrl_def endsWith_slash withOneTrailingSlash_def stripTrailingSlashes_def)
    qed
  qed
qed

lemma baseUrl_idem: "baseUrl (baseUrl url) = baseUrl url"
  by (simp add: baseUrl_def endsWith_slash)

text \<open>
  C10, as stated, fails: a store URL that ends with two slashes keeps both, so the endpoint
  is not the URL with exactly one trailing slash followed by the path.
\<close>

theorem apiUrl_double_slash_counterexample:
  "apiUrl ''https://loja.example//'' = ''https://loja.example//wp-json/wc/v3/products?per_page=100''
   \<and> apiUrl ''https://loja.example//''
       \<noteq> withOneTrailingSlash ''https://loja.example//'' @ ''wp-json/wc/v3/products?per_page=100''"
  by (simp add: apiUrl_def baseUrl_def endsWith_def withOneTrailingSlash_def
      stripTrailingSlashes_def)

text \<open>
  C10, amended: for every store URL that does not end with two slashes, the endpoint is the
  URL with exactly one trailing slash followed by \<open>wp-json/wc/v3/products?per_page=100\<close>,
  and it is the same endpoint whether the URL is configured with or without its trailing
  slash.
\<close>

theorem apiUrl_trailing_slash:
  assumes "\<not> endsWith url ''//''"
  shows "apiUrl url = withOneTrailingSlash url @ ''wp-json/wc/v3/products?per_page=100''
       \<and> apiUrl (withOneTrailingSlash url) = apiUrl url"
  using baseUrl_one_slash [OF assms] baseUrl_idem [of url] by (simp add: apiUrl_def)

theorem apiUrl_trailing_slash_witness:
  "\<not> endsWith ''https://loja.example'' ''//''
   \<and> apiUrl ''https://loja.example'' = ''https://loja.example/wp-json/wc/v3/products?per_page=100''
   \<and> apiUrl ''https://loja.example/'' = apiUrl ''https://loja.example''"
proof -
  have h: "\<not> endsWith ''https://loja.example'' ''//''" by (simp add: endsWith_def)
  show ?thesis
    using h apiUrl_trailing_slash [OF h]
    by (simp add: withOneTrailingSlash_def stripTrailingSlashes_def)
qed

text \<open>A store URL that already ends with a slash is used as it is, with all its slashes.\<close>

lemma apiUrl_keeps_slashes:
  "endsWith url ''/'' \<Longrightarrow> apiUrl url = url @ ''wp-json/wc/v3/products?per_page=100''"
  by (simp add: apiUrl_def baseUrl_def)

subsection \<open>The callback on parsed elements and on typed records\<close>

lemma toVal_int: "toVal (Some (JNum (Finite (of_int i)))) = VInt i"
  by simp

lemma firstField_encoded:
  "firstField field (Some (JArr (map (\<lambda>s. JObj [(field, JStr s)]) xs))) =
     Inr (case xs of [] \<Rightarrow> None | x # _ \<Rightarrow> Some (JStr x))"
  by (cases xs) simp_all

lemma orNull_first:
  "orNull (case xs of [] \<Rightarrow> None | x # _ \<Rightarrow> Some (JStr x)) = firstOrNull xs"
  by (cases xs) (simp_all add: orNull_def firstOrNull_def)

lemma priceOf_string: "priceOf (Some (JStr s)) = parseFloat (orElse s ''0'')"
  by (simp add: priceOf_def orElse_def)

text \<open>
  On the JSON of a record at the declared interface the callback on parsed elements
  throws nothing and returns what the callback on the typed record returns.
\<close>

lemma normalizeElement_encodeProduct:
  "normalizeElement (encodeProduct product) = Inr (normalizeProduct product)"
proof -
  have img: "getProperty (encodeProduct product) ''images''
               = Some (JArr (map (\<lambda>s. JObj [(''src'', JStr s)]) (wc_images product)))"
    by (simp add: encodeProduct_def)
  have cat: "getProperty (encodeProduct product) ''categories''
               = Some (JArr (map (\<lambda>n. JObj [(''name'', JStr n)]) (wc_categories product)))"
    by (simp add: encodeProduct_def)
  have rest: "getProperty (encodeProduct product) ''id'' = Some (JNum (Finite (of_int (wc_id product))))"
    "getProperty (encodeProduct product) ''name'' = Some (JStr (wc_name product))"
    "getProperty (encodeProduct product) ''price'' = Some (JStr (wc_price product))"
    "getProperty (encodeProduct product) ''description'' = Some (JStr (wc_description product))"
    "getProperty (encodeProduct product) ''status'' = Some (JStr (wc_status product))"
    by (simp_all add: encodeProduct_def)
  have nn: "encodeProduct product \<noteq> JNull"
    by (simp add: encodeProduct_def)
  show ?thesis
    unfolding normalizeElement_def img cat rest firstField_encoded
    using nn by (simp add: orNull_first priceOf_string toVal_int normalizeProduct_def)
qed


lemma normalizeElement_keys:
  "normalizeElement x = Inr row \<Longrightarrow>
     map fst row = [''woo_id'', ''name'', ''price'', ''description'', ''image_url'', ''category'',
                    ''is_active'']"
  by (auto simp: normalizeElement_def split: if_splits sum.splits)

lemma normalizeElements_keys:
  "normalizeElements xs = Inr rows \<Longrightarrow> row \<in> set rows \<Longrightarrow>
     map fst row = [''woo_id'', ''name'', ''price'', ''description'', ''image_url'', ''category'',
                    ''is_active'']"
proof (induction xs arbitrary: rows)
  case Nil
  then show ?case by simp
next
  case (Cons x xs)
  from Cons.prems(1) obtain r rs where r: "normalizeElement x = Inr r"
    and rs: "normalizeElements xs = Inr rs" and rows: "rows = r # rs"
    by (auto split: sum.splits)
  from Cons.prems(2) rows have "row = r \<or> row \<in> set rs" by simp
  then show ?case
    using normalizeElement_keys [OF r] Cons.IH [OF rs] by blast
qed





subsection \<open>Normalization of the price\<close>

lemma isDigit_point [simp]: "\<not> isDigit (CHR ''.'')"
  by (simp add: isDigit_def)

lemma parseUnsigned_None_iff:
  "parseUnsigned u = None \<longleftrightarrow>
     \<not> (take 8 u = ''Infinity''
        \<or> (case u of
              [] \<Rightarrow> False
            | c # r \<Rightarrow> isDigit c \<or> (c = CHR ''.'' \<and> (case r of [] \<Rightarrow> False | d # _ \<Rightarrow> isDigit d))))"
  by (auto simp: parseUnsigned_def Let_def takeWhile_eq_Nil_iff split: list.splits)

lemma parseUnsigned_not_NaN: "parseUnsigned u \<noteq> Some NaN"
  by (auto simp: parseUnsigned_def Let_def)

lemma negate_NaN_iff: "negate v = NaN \<longleftrightarrow> v = NaN"
  by (cases v) auto

lemma parseFloat_NaN_iff: "parseFloat s = NaN \<longleftrightarrow> \<not> startsWithDecimal s"
proof (cases "trimStart s")
  case Nil
  then show ?thesis
    by (simp add: parseFloat_def startsWithDecimal_def unsignedPart_def)
next
  case (Cons c r)
  have sgn: "parseUnsigned r = None \<or> (\<exists>v. parseUnsigned r = Some v \<and> v \<noteq> NaN)"
    using parseUnsigned_not_NaN [of r] by (cases "parseUnsigned r") auto
  have uns: "parseUnsigned (c # r) = None \<or> (\<exists>v. parseUnsigned (c # r) = Some v \<and> v \<noteq> NaN)"
    using parseUnsigned_not_NaN [of "c # r"] by (cases "parseUnsigned (c # r)") auto
  show ?thesis
  proof (cases "c = CHR ''-'' \<or> c = CHR ''+''")
    case True
    with Cons sgn show ?thesis
      using parseUnsigned_None_iff [of r]
      by (auto simp: parseFloat_def startsWithDecimal_def unsignedPart_def negate_NaN_iff)
  next
    case False
    with Cons uns show ?thesis
      using parseUnsigned_None_iff [of "c # r"]
      by (auto simp: parseFloat_def startsWithDecimal_def unsignedPart_def)
  qed
qed

lemma isDigit_not_space:
  assumes "isDigit c"
  shows "c \<noteq> CHR 0x09" "c \<noteq> CHR 0x0A" "c \<noteq> CHR 0x0B" "c \<noteq> CHR 0x0C" "c \<noteq> CHR 0x0D"
    "c \<noteq> CHR 0x20" "c \<noteq> CHR 0xC2" "c \<noteq> CHR 0xE1" "c \<noteq> CHR 0xE2" "c \<noteq> CHR 0xE3"
    "c \<noteq> CHR 0xEF"
  using assms by (auto simp: isDigit_def)

lemma whiteSpaceLength_digit: "isDigit c \<Longrightarrow> whiteSpaceLength (c # s) = 0"
  by (simp add: whiteSpaceLength_def isDigit_not_space)

lemma trimStart_digit: "isDigit c \<Longrightarrow> trimStart (c # s) = c # s"
  by (simp add: trimStart.simps [of "c # s"] whiteSpaceLength_digit)

lemma isDigit_chars:
  "isDigit c \<Longrightarrow> c \<noteq> CHR ''-'' \<and> c \<noteq> CHR ''+'' \<and> c \<noteq> CHR ''I'' \<and> c \<noteq> CHR ''.''"
  by (auto simp: isDigit_def)

lemma parseUnsigned_digits:
  assumes "ds \<noteq> []" and "\<forall>c \<in> set ds. isDigit c"
    and "rest = [] \<or> (\<not> isDigit (hd rest) \<and> hd rest \<notin> set ''.eE'')"
  shows "parseUnsigned (ds @ rest) = Some (Finite (of_nat (digitsVal ds)))"
proof -
  from assms(1) obtain c ds' where ds: "ds = c # ds'" by (cases ds) auto
  with assms(2) have c: "isDigit c" by simp
  have inf: "take 8 (ds @ rest) \<noteq> ''Infinity''"
    using isDigit_chars [OF c] by (simp add: ds)
  have tw: "takeWhile isDigit (ds @ rest) = ds"
    using assms(2,3) by (cases rest) (auto simp: takeWhile_append2)
  have dw: "dropWhile isDigit (ds @ rest) = rest"
    using assms(2,3) by (cases rest) (auto simp: dropWhile_append2)
  have ex: "exponentPart rest = 0"
    using assms(3) by (cases rest) (auto simp: exponentPart_def)
  have fp: "(case rest of [] \<Rightarrow> [] | c # t \<Rightarrow> if c = CHR ''.'' then takeWhile isDigit t else []) = []"
    using assms(3) by (cases rest) auto
  have r2: "(case rest of [] \<Rightarrow> [] | c # t \<Rightarrow> if c = CHR ''.'' then dropWhile isDigit t else rest) = rest"
    using assms(3) by (cases rest) auto
  show ?thesis
    using inf assms(1)
    by (simp add: parseUnsigned_def Let_def tw dw fp r2 ex scale10_def digitsVal_def)
qed

text \<open>
  Leading digits are read as their number, whatever follows them, unless what follows
  continues the literal (a digit, a point or an exponent letter).
\<close>

lemma parseFloat_digits:
  assumes "ds \<noteq> []" and "\<forall>c \<in> set ds. isDigit c"
    and "rest = [] \<or> (\<not> isDigit (hd rest) \<and> hd rest \<notin> set ''.eE'')"
  shows "parseFloat (ds @ rest) = Finite (of_nat (digitsVal ds))"
proof -
  from assms(1) obtain c ds' where ds: "ds = c # ds'" by (cases ds) auto
  with assms(2) have c: "isDigit c" by simp
  have t: "trimStart (ds @ rest) = c # (ds' @ rest)"
    using trimStart_digit [OF c] by (simp add: ds)
  from parseUnsigned_digits [OF assms] have "parseUnsigned (c # (ds' @ rest))
      = Some (Finite (of_nat (digitsVal ds)))" by (simp add: ds)
  with t isDigit_chars [OF c] show ?thesis
    by (simp add: parseFloat_def)
qed

lemma parseFloat_comma: "parseFloat ''19,90'' = Finite 19"
  by code_simp

lemma parseFloat_12abc: "parseFloat ''12abc'' = Finite 12"
  by code_simp

lemma parseFloat_zero: "parseFloat ''0'' = Finite 0"
  by code_simp

lemma no_decimal_abc: "\<not> startsWithDecimal ''abc''"
  by code_simp

lemma no_decimal_dash: "\<not> startsWithDecimal ''-''"
  by code_simp

text \<open>
  C2, as stated, fails: the price string \<open>abc\<close> is normalized to \<open>NaN\<close>, not to 0, and
  the price string \<open>19,90\<close>, which is no decimal either, is normalized to 19. No error is
  raised: the client returns the normalized record.
\<close>

theorem normalizeProduct_abc_counterexample:
  "map_of (normalizeProduct (exampleWooProduct ''abc'')) ''price'' = Some (VNum NaN)
   \<and> map_of (normalizeProduct (exampleWooProduct ''abc'')) ''price'' \<noteq> Some (VNum (Finite 0))
   \<and> map_of (normalizeProduct (exampleWooProduct ''19,90'')) ''price'' = Some (VNum (Finite 19))
   \<and> syncProducts (exampleRemote (exampleResponse 200 [] (Records [exampleWooProduct ''abc''])))
       = Inr [normalizeProduct (exampleWooProduct ''abc'')]"
  by code_simp

text \<open>
  C2, amended: the normalization of a remote record raises no error. It returns price 0
  when the price string is empty. For a non-empty string the price is what \<open>parseFloat\<close>
  reads: \<open>NaN\<close> exactly when the string does not start, after leading white space and an
  optional sign, with a decimal literal (such as \<open>abc\<close>), and otherwise the number of that
  leading literal, whatever follows it: leading digits of a number up to \<open>2^53\<close> (which a
  double holds exactly), followed by anything that does not continue the literal, give
  that number, so \<open>19,90\<close> gives 19 and \<open>12abc\<close> gives 12, neither 0 nor \<open>NaN\<close>.
\<close>

theorem normalizeProduct_price:
  "normalizeElement (encodeProduct product) = Inr (normalizeProduct product)
   \<and> map_of (normalizeProduct product) ''price''
       = Some (VNum (if wc_price product = [] then Finite 0 else parseFloat (wc_price product)))
   \<and> (wc_price product \<noteq> [] \<and> \<not> startsWithDecimal (wc_price product)
        \<longrightarrow> map_of (normalizeProduct product) ''price'' = Some (VNum NaN))
   \<and> (startsWithDecimal (wc_price product)
        \<longrightarrow> map_of (normalizeProduct product) ''price'' \<noteq> Some (VNum NaN))
   \<and> (\<forall>ds rest. wc_price product = ds @ rest \<and> ds \<noteq> [] \<and> (\<forall>c \<in> set ds. isDigit c)
          \<and> digitsVal ds \<le> 2 ^ 53
          \<and> (rest = [] \<or> (\<not> isDigit (hd rest) \<and> hd rest \<notin> set ''.eE''))
        \<longrightarrow> map_of (normalizeProduct product) ''price''
              = Some (VNum (Finite (of_nat (digitsVal ds)))))
   \<and> map_of (normalizeProduct (exampleWooProduct ''19,90'')) ''price'' = Some (VNum (Finite 19))
   \<and> map_of (normalizeProduct (exampleWooProduct ''12abc'')) ''price'' = Some (VNum (Finite 12))"
proof -
  have p: "map_of (normalizeProduct q) ''price''
       = Some (VNum (if wc_price q = [] then Finite 0 else parseFloat (wc_price q)))" for q
    by (simp add: normalizeProduct_def orElse_def parseFloat_zero)
  have n: "wc_price product \<noteq> [] \<and> \<not> startsWithDecimal (wc_price product)
        \<Longrightarrow> map_of (normalizeProduct product) ''price'' = Some (VNum NaN)"
    using parseFloat_NaN_iff [of "wc_price product"] by (simp add: p)
  have y: "startsWithDecimal (wc_price product)
        \<Longrightarrow> map_of (normalizeProduct product) ''price'' \<noteq> Some (VNum NaN)"
    using parseFloat_NaN_iff [of "wc_price product"]
    by (auto simp: p startsWithDecimal_def unsignedPart_def trimStart.simps [of "[]"]
        whiteSpaceLength_def)
  have d: "map_of (normalizeProduct product) ''price''
              = Some (VNum (Finite (of_nat (digitsVal ds))))"
    if "wc_price product = ds @ rest \<and> ds \<noteq> [] \<and> (\<forall>c \<in> set ds. isDigit c)
          \<and> digitsVal ds \<le> 2 ^ 53
          \<and> (rest = [] \<or> (\<not> isDigit (hd rest) \<and> hd rest \<notin> set ''.eE''))" for ds rest
  proof -
    from that have "parseFloat (wc_price product) = Finite (of_nat (digitsVal ds))"
      using parseFloat_digits [of ds rest] by simp
    moreover from that have "wc_price product \<noteq> []" by simp
    ultimately show ?thesis by (simp add: p)
  qed
  have e1: "map_of (normalizeProduct (exampleWooProduct ''19,90'')) ''price''
              = Some (VNum (Finite 19))"
    by (simp add: p exampleWooProduct_def parseFloat_comma)
  have e2: "map_of (normalizeProduct (exampleWooProduct ''12abc'')) ''price''
              = Some (VNum (Finite 12))"
    by (simp add: p exampleWooProduct_def parseFloat_12abc)
  from normalizeElement_encodeProduct [of product] p [of product] n y d e1 e2
  show ?thesis by blast
qed

theorem normalizeProduct_price_witness:
  "wc_price (exampleWooProduct ''-'') \<noteq> [] \<and> \<not> startsWithDecimal (wc_price (exampleWooProduct ''-''))
   \<and> map_of (normalizeProduct (exampleWooProduct ''-'')) ''price'' = Some (VNum NaN)
   \<and> map_of (normalizeProduct (exampleWooProduct [])) ''price'' = Some (VNum (Finite 0))
   \<and> wc_price (exampleWooProduct ''7 kg'') = ''7'' @ '' kg''
   \<and> map_of (normalizeProduct (exampleWooProduct ''7 kg'')) ''price'' = Some (VNum (Finite 7))"
proof -
  have h: "wc_price (exampleWooProduct ''-'') \<noteq> []
           \<and> \<not> startsWithDecimal (wc_price (exampleWooProduct ''-''))"
    using no_decimal_dash by (simp add: exampleWooProduct_def)
  have e: "wc_price (exampleWooProduct []) = []"
    by (simp add: exampleWooProduct_def)
  have n: "map_of (normalizeProduct (exampleWooProduct ''-'')) ''price'' = Some (VNum NaN)"
    using h normalizeProduct_price [of "exampleWooProduct ''-''"] by blast
  have "map_of (normalizeProduct (exampleWooProduct [])) ''price''
       = Some (VNum (if wc_price (exampleWooProduct []) = [] then Finite 0
                     else parseFloat (wc_price (exampleWooProduct []))))"
    using normalizeProduct_price [of "exampleWooProduct []"] by blast
  then have z: "map_of (normalizeProduct (exampleWooProduct [])) ''price'' = Some (VNum (Finite 0))"
    using e by simp
  have k: "wc_price (exampleWooProduct ''7 kg'') = ''7'' @ '' kg''"
    by (simp add: exampleWooProduct_def)
  have v: "digitsVal ''7'' = 7" by (simp add: digitsVal_def digitVal_def)
  have g: "wc_price (exampleWooProduct ''7 kg'') = ''7'' @ '' kg'' \<and> ''7'' \<noteq> []
           \<and> (\<forall>c \<in> set ''7''. isDigit c)
           \<and> digitsVal ''7'' \<le> 2 ^ 53
           \<and> ('' kg'' = [] \<or> (\<not> isDigit (hd '' kg'') \<and> hd '' kg'' \<notin> set ''.eE''))"
    using k by (simp add: isDigit_def v)
  from g normalizeProduct_price [of "exampleWooProduct ''7 kg''"]
  have "map_of (normalizeProduct (exampleWooProduct ''7 kg'')) ''price''
          = Some (VNum (Finite (of_nat (digitsVal ''7''))))"
    by blast
  then have s: "map_of (normalizeProduct (exampleWooProduct ''7 kg'')) ''price''
          = Some (VNum (Finite 7))"
    by (simp add: v)
  from h n z k s show ?thesis by blast
qed

subsection \<open>Failures of the remote catalog client\<close>









subsection \<open>Decimal numerals, dates and the drawn items\<close>

lemma digitChar_0 [simp]: "digitChar 0 = CHR ''0''"
  by code_simp

lemma natToString_lt10: "n < 10 \<Longrightarrow> natToString n = [digitChar n]"
  by (simp add: natToString.simps [of n])

lemma natToString_ge10:
  "10 \<le> n \<Longrightarrow> natToString n = natToString (n div 10) @ [digitChar (n mod 10)]"
  by (simp add: natToString.simps [of n])

lemma natToString_lt100: "10 \<le> n \<Longrightarrow> n < 100 \<Longrightarrow> natToString n = twoDigits n"
  by (simp add: natToString_ge10 natToString_lt10 twoDigits_def)

lemma div_mod_facts:
  fixes n :: nat
  shows "n div 10 div 10 = n div 100" and "n mod 100 div 10 mod 10 = n div 10 mod 10"
    and "n mod 100 mod 10 = n mod 10"
proof -
  show "n div 10 div 10 = n div 100" by (simp add: div_mult2_eq)
  have "n mod 100 div 10 = n div 10 mod 10"
    using mod_mult2_eq [of n 10 10] by simp
  then show "n mod 100 div 10 mod 10 = n div 10 mod 10" by simp
  show "n mod 100 mod 10 = n mod 10" by (simp add: mod_mod_cancel)
qed


lemma natToString_ge100:
  assumes "100 \<le> n"
  shows "natToString n = natToString (n div 100) @ twoDigits (n mod 100)"
proof -
  have a: "10 \<le> n" using assms by simp
  have b: "10 \<le> n div 10" using assms by simp
  show ?thesis
    by (simp add: natToString_ge10 [OF a] natToString_ge10 [OF b] div_mod_facts twoDigits_def)
qed

lemma natToString_nonempty: "natToString n \<noteq> []"
  by (cases "n < 10") (simp_all add: natToString_lt10 natToString_ge10)

lemma pointed_lt10:
  assumes "n < 10"
  shows "(let m = natToString n;
              m = (if length m \<le> 2 then replicate (3 - length m) (CHR ''0'') @ m else m);
              k = length m
          in take (k - 2) m @ ''.'' @ drop (k - 2) m)
         = natToString (n div 100) @ ''.'' @ twoDigits (n mod 100)"
proof -
  have "n div 100 = 0" "n mod 100 = n" "n div 10 = 0" using assms by simp_all
  then show ?thesis
    using assms by (simp add: natToString_lt10 twoDigits_def numeral_3_eq_3)
qed

lemma pointed_lt100:
  assumes "10 \<le> n" "n < 100"
  shows "(let m = natToString n;
              m = (if length m \<le> 2 then replicate (3 - length m) (CHR ''0'') @ m else m);
              k = length m
          in take (k - 2) m @ ''.'' @ drop (k - 2) m)
         = natToString (n div 100) @ ''.'' @ twoDigits (n mod 100)"
proof -
  have "n div 100 = 0" "n mod 100 = n" using assms by simp_all
  then show ?thesis
    using assms by (simp add: natToString_lt100 natToString_lt10 twoDigits_def numeral_3_eq_3)
qed

lemma pointed_ge100:
  assumes "100 \<le> n"
  shows "(let m = natToString n;
              m = (if length m \<le> 2 then replicate (3 - length m) (CHR ''0'') @ m else m);
              k = length m
          in take (k - 2) m @ ''.'' @ drop (k - 2) m)
         = natToString (n div 100) @ ''.'' @ twoDigits (n mod 100)"
proof -
  have "length (natToString (n div 100)) \<noteq> 0"
    using natToString_nonempty by simp
  then show ?thesis
    by (simp add: natToString_ge100 [OF assms] twoDigits_def Let_def)
qed


lemma fixedDigits_spec:
  "fixedDigits x =
     natToString (nat \<lfloor>x * 100 + 1 / 2\<rfloor> div 100) @ ''.''
       @ twoDigits (nat \<lfloor>x * 100 + 1 / 2\<rfloor> mod 100)"
proof -
  define n where "n = nat \<lfloor>x * 100 + 1 / 2\<rfloor>"
  consider "n < 10" | "10 \<le> n" "n < 100" | "100 \<le> n" by linarith
  then have "(let m = natToString n;
                  m = (if length m \<le> 2 then replicate (3 - length m) (CHR ''0'') @ m else m);
                  k = length m
              in take (k - 2) m @ ''.'' @ drop (k - 2) m)
             = natToString (n div 100) @ ''.'' @ twoDigits (n mod 100)"
    using pointed_lt10 pointed_lt100 pointed_ge100 by cases blast+
  then show ?thesis
    unfolding fixedDigits_def n_def Let_def .
qed

lemma toFixed2_spec:
  assumes "\<bar>q\<bar> < 10 ^ 21"
  shows "toFixed2 nts (Finite q) = fixedTo2Decimals q"
proof -
  have "\<not> 10 ^ 21 \<le> \<bar>q\<bar>" using assms by linarith
  then show ?thesis
    by (simp only: toFixed2_def fixedTo2Decimals_def hundredths_def fixedDigits_spec
        number.case if_False)
qed

lemma addLeadingZeros_2: "n < 100 \<Longrightarrow> addLeadingZeros n 2 = twoDigits n"
  by (cases "n < 10")
    (simp_all add: addLeadingZeros_def natToString_lt10 natToString_lt100 twoDigits_def)


lemma addLeadingZeros_4:
  assumes "n < 10000"
  shows "addLeadingZeros n 4 = fourDigits n"
proof -
  consider "n < 10" | "10 \<le> n" "n < 100" | "100 \<le> n" "n < 1000" | "1000 \<le> n"
    by linarith
  then show ?thesis
  proof cases
    case 1
    then have "n div 100 = 0" "n mod 100 = n" "n div 10 = 0" by simp_all
    with 1 show ?thesis
      by (simp add: addLeadingZeros_def natToString_lt10 fourDigits_def twoDigits_def
          numeral_3_eq_3)
  next
    case 2
    then have "n div 100 = 0" "n mod 100 = n" by simp_all
    with 2 show ?thesis
      by (simp add: addLeadingZeros_def natToString_lt100 fourDigits_def twoDigits_def
          numeral_2_eq_2)
  next
    case 3
    then have "n div 100 < 10" by simp
    then have "n div 100 div 10 = 0" by simp
    with 3 \<open>n div 100 < 10\<close> show ?thesis
      by (simp add: addLeadingZeros_def natToString_ge100 natToString_lt10 fourDigits_def
          twoDigits_def)
  next
    case 4
    with assms have "10 \<le> n div 100" "n div 100 < 100" by simp_all
    with 4 show ?thesis
      by (simp add: addLeadingZeros_def natToString_ge100 natToString_lt100 fourDigits_def
          twoDigits_def)
  qed
qed

lemma format_ddMMyyyy_digits:
  assumes "day d < 100" "month d < 100" "year d < 10000"
  shows "format_ddMMyyyy d
           = twoDigits (day d) @ ''/'' @ twoDigits (month d) @ ''/'' @ fourDigits (year d)"
  using assms by (simp add: format_ddMMyyyy_def addLeadingZeros_2 addLeadingZeros_4)

lemma generateProductCatalog_items:
  "drawn (generateProductCatalog env ps companyInfo) =
     [TextItem (company_name companyInfo) (pageWidth env / 2) 20 AlignCenter 20,
      TextItem (''Cat'' @ a_acute @ ''logo de Produtos - '' @ format_ddMMyyyy (today env))
        (pageWidth env / 2) 30 AlignCenter 12,
      TableItem
        \<lparr> head = [[''Produto'', ''Categoria'', ''Pre'' @ c_cedilla @ ''o'']],
          body = map (tableRow (numberToString env)) ps,
          startY = 40, theme = ''grid'', styles_fontSize = 10, styles_cellPadding = 5,
          headStyles_fillColor = [41, 128, 185], headStyles_textColor = 255 \<rparr>]
     @ (if truthy (contact_phone companyInfo)
        then [TextItem (''Tel: '' @ the (contact_phone companyInfo)) 20 (pageHeight env - 20)
                AlignLeft 10]
        else [])
     @ (if truthy (contact_email companyInfo)
        then [TextItem (''Email: '' @ the (contact_email companyInfo)) (pageWidth env - 20)
                (pageHeight env - 20) AlignRight 10]
        else [])"
  by (simp add: generateProductCatalog_def Let_def newJsPDF_def setFontSize_def docText_def
      autoTable_def addFooterPhone_def addFooterEmail_def outputBlob_def)

lemma generateProductCatalog_stamp:
  "blobFileId (generateProductCatalog env ps companyInfo) = randomFileId env"
  "blobCreationDate (generateProductCatalog env ps companyInfo) = createdAt env"
  by (simp_all add: generateProductCatalog_def Let_def newJsPDF_def setFontSize_def docText_def
      autoTable_def addFooterPhone_def addFooterEmail_def outputBlob_def)

lemma widget_row: "tableRow nts exampleWidget = [''Widget'', ''Tools'', ''R$ 19.90'']"
  by code_simp

lemma widget_row_double:
  "tableRow nts \<lparr> p_name = ''Widget'',
                  p_price = Finite (2800676018271027 / 140737488355328),
                  p_category = Some ''Tools'' \<rparr> = [''Widget'', ''Tools'', ''R$ 19.90'']"
  by code_simp

subsection \<open>The renderer on a heap computes the same blob and writes no argument\<close>

lemma readCompanyInfo_append:
  "readCompanyInfo h r = Some c \<Longrightarrow> readCompanyInfo (h @ ext) r = Some c"
  by (auto simp: readCompanyInfo_def nth_append split: if_splits)

lemma readProduct_append:
  "readProduct h r = Some p \<Longrightarrow> readProduct (h @ ext) r = Some p"
  by (auto simp: readProduct_def nth_append split: if_splits)

lemma those_readProduct_append:
  "those (map (readProduct h) refs) = Some ps
     \<Longrightarrow> those (map (readProduct (h @ ext)) refs) = Some ps"
proof (induction refs arbitrary: ps)
  case Nil
  then show ?case by simp
next
  case (Cons r refs)
  from Cons.prems obtain p qs where p: "readProduct h r = Some p"
    and qs: "those (map (readProduct h) refs) = Some qs" and ps: "ps = p # qs"
    by (auto split: option.splits)
  from readProduct_append [OF p] Cons.IH [OF qs] ps show ?case by simp
qed

lemma readProducts_append:
  "readProducts h r = Some ps \<Longrightarrow> readProducts (h @ ext) r = Some ps"
proof -
  assume a: "readProducts h r = Some ps"
  then have r: "r < length h" by (simp add: readProducts_def split: if_splits)
  with a obtain refs where refs: "h ! r = ProductArray refs"
    and ps: "those (map (readProduct h) refs) = Some ps"
    by (auto simp: readProducts_def split: heap_object.splits)
  from those_readProduct_append [OF ps] r refs show ?thesis
    by (simp add: readProducts_def nth_append)
qed

lemma updateDocument_fresh:
  "updateDocument (length h) f (h @ Document d # ext) = Some (h @ Document (f d) # ext)"
  by (simp add: updateDocument_def readDocument_def nth_append list_update_append)

lemma readDocument_fresh: "readDocument (h @ Document d # ext) (length h) = Some d"
  by (simp add: readDocument_def nth_append)

lemma readTableData_fresh:
  "readTableData (h @ [Document d, TableData rows]) (Suc (length h)) = Some rows"
  by (simp add: readTableData_def nth_append)

lemma generateProductCatalogOnHeap_refines:
  assumes ps: "readProducts h pr = Some ps"
    and c: "readCompanyInfo h cr = Some c"
  shows "\<exists>doc. generateProductCatalogOnHeap env pr cr h
           = Some (generateProductCatalog env ps c,
                   h @ [Document doc, TableData (map (tableRow (numberToString env)) ps)])"
proof -
  have c1: "readCompanyInfo (h @ [Document d]) cr = Some c" for d
    using readCompanyInfo_append [OF c] .
  have c2: "readCompanyInfo (h @ [Document d, TableData t]) cr = Some c" for d t
    using readCompanyInfo_append [OF c] .
  have p1: "readProducts (h @ [Document d]) pr = Some ps" for d
    using readProducts_append [OF ps] .
  have u1: "updateDocument (length h) f (h @ [Document d]) = Some (h @ [Document (f d)])" for f d
    using updateDocument_fresh [of h f d "[]"] .
  have u2: "updateDocument (length h) f (h @ [Document d, TableData t])
              = Some (h @ [Document (f d), TableData t])" for f d t
    using updateDocument_fresh [of h f d "[TableData t]"] .
  have r2: "readDocument (h @ [Document d, TableData t]) (length h) = Some d" for d t
    using readDocument_fresh [of h d "[TableData t]"] .
  show ?thesis
    by (simp add: generateProductCatalogOnHeap_def generateProductCatalog_def allocate_def
        Let_def c1 c2 p1 u1 u2 r2 readTableData_fresh)
qed

subsection \<open>The layout of the catalog\<close>

text \<open>
  C5: the document starts with the company name, centered at the top in size 20, then the
  subtitle, centered, which ends with the current date as two digits of the day, a slash,
  two digits of the month, a slash and four digits of the year; then comes one table with
  the three columns product, category and price (their labels are in Portuguese:
  Produto, Categoria, Preco with a cedilla). Its body has exactly one row per input
  product, in the input order; a row holds the name, the category or \<open>-\<close> when the
  category is absent or empty, and \<open>R$\<close>, a space and the price fixed to 2 decimals
  (for a magnitude below \<open>10^21\<close>: rounded to hundredths, half up). The price 19.9 renders
  as \<open>R$ 19.90\<close>, both as the exact decimal and as the double nearest to it.
\<close>

theorem generateProductCatalog_layout:
  "take 3 (drawn (generateProductCatalog env ps companyInfo)) =
     [TextItem (company_name companyInfo) (pageWidth env / 2) 20 AlignCenter 20,
      TextItem (''Cat'' @ a_acute @ ''logo de Produtos - '' @ format_ddMMyyyy (today env))
        (pageWidth env / 2) 30 AlignCenter 12,
      TableItem
        \<lparr> head = [[''Produto'', ''Categoria'', ''Pre'' @ c_cedilla @ ''o'']],
          body = map (tableRow (numberToString env)) ps,
          startY = 40, theme = ''grid'', styles_fontSize = 10, styles_cellPadding = 5,
          headStyles_fillColor = [41, 128, 185], headStyles_textColor = 255 \<rparr>]
   \<and> (day (today env) < 100 \<and> month (today env) < 100 \<and> year (today env) < 10000
        \<longrightarrow> format_ddMMyyyy (today env)
              = twoDigits (day (today env)) @ ''/'' @ twoDigits (month (today env)) @ ''/''
                  @ fourDigits (year (today env)))
   \<and> tableBodies (generateProductCatalog env ps companyInfo)
        = [map (tableRow (numberToString env)) ps]
   \<and> length (map (tableRow (numberToString env)) ps) = length ps
   \<and> (\<forall>i < length ps.
         map (tableRow (numberToString env)) ps ! i
           = [p_name (ps ! i),
              (case p_category (ps ! i) of None \<Rightarrow> ''-'' | Some c \<Rightarrow> if c = [] then ''-'' else c),
              ''R$ '' @ toFixed2 (numberToString env) (p_price (ps ! i))]
         \<and> (\<forall>q. p_price (ps ! i) = Finite q \<and> \<bar>q\<bar> < 10 ^ 21
               \<longrightarrow> toFixed2 (numberToString env) (p_price (ps ! i)) = fixedTo2Decimals q))
   \<and> tableRow (numberToString env) exampleWidget = [''Widget'', ''Tools'', ''R$ 19.90'']
   \<and> tableRow (numberToString env)
         \<lparr> p_name = ''Widget'',
           p_price = Finite (2800676018271027 / 140737488355328),
           p_category = Some ''Tools'' \<rparr> = [''Widget'', ''Tools'', ''R$ 19.90'']"
proof -
  have rows: "map (tableRow (numberToString env)) ps ! i
                = [p_name (ps ! i),
                   (case p_category (ps ! i) of None \<Rightarrow> ''-''
                    | Some c \<Rightarrow> if c = [] then ''-'' else c),
                   ''R$ '' @ toFixed2 (numberToString env) (p_price (ps ! i))]"
    if "i < length ps" for i
    using that by (simp add: tableRow_def truthy_def split: option.splits)
  have fixed: "toFixed2 (numberToString env) (p_price (ps ! i)) = fixedTo2Decimals q"
    if "p_price (ps ! i) = Finite q \<and> \<bar>q\<bar> < 10 ^ 21" for i q
    using that toFixed2_spec [of q "numberToString env"] by simp
  have bodies: "tableBodies (generateProductCatalog env ps companyInfo)
                  = [map (tableRow (numberToString env)) ps]"
    by (simp add: generateProductCatalog_items tableBodies_def)
  have top: "take 3 (drawn (generateProductCatalog env ps companyInfo)) =
     [TextItem (company_name companyInfo) (pageWidth env / 2) 20 AlignCenter 20,
      TextItem (''Cat'' @ a_acute @ ''logo de Produtos - '' @ format_ddMMyyyy (today env))
        (pageWidth env / 2) 30 AlignCenter 12,
      TableItem
        \<lparr> head = [[''Produto'', ''Categoria'', ''Pre'' @ c_cedilla @ ''o'']],
          body = map (tableRow (numberToString env)) ps,
          startY = 40, theme = ''grid'', styles_fontSize = 10, styles_cellPadding = 5,
          headStyles_fillColor = [41, 128, 185], headStyles_textColor = 255 \<rparr>]"
    by (simp add: generateProductCatalog_items)
  from top bodies rows fixed format_ddMMyyyy_digits [of "today env"] widget_row
    widget_row_double
  show ?thesis by (intro conjI impI allI; simp)
qed

lemma exampleDate_digits:
  "twoDigits (day exampleDate) @ ''/'' @ twoDigits (month exampleDate) @ ''/''
     @ fourDigits (year exampleDate) = ''22/01/2025''"
  by code_simp

theorem generateProductCatalog_layout_witness:
  "day (today examplePdfEnv) < 100 \<and> month (today examplePdfEnv) < 100
   \<and> year (today examplePdfEnv) < 10000
   \<and> format_ddMMyyyy (today examplePdfEnv) = ''22/01/2025''
   \<and> (0::nat) < length [exampleWidget]
   \<and> tableBodies (generateProductCatalog examplePdfEnv [exampleWidget] exampleSettings)
       = [[[''Widget'', ''Tools'', ''R$ 19.90'']]]"
proof -
  have d: "day (today examplePdfEnv) < 100 \<and> month (today examplePdfEnv) < 100
           \<and> year (today examplePdfEnv) < 10000"
    by (simp add: examplePdfEnv_def exampleDate_def)
  have t: "today examplePdfEnv = exampleDate"
    by (simp add: examplePdfEnv_def)
  note lay = generateProductCatalog_layout [of examplePdfEnv "[exampleWidget]" exampleSettings]
  from lay d have "format_ddMMyyyy (today examplePdfEnv)
      = twoDigits (day (today examplePdfEnv)) @ ''/'' @ twoDigits (month (today examplePdfEnv))
          @ ''/'' @ fourDigits (year (today examplePdfEnv))"
    by blast
  then have f: "format_ddMMyyyy (today examplePdfEnv) = ''22/01/2025''"
    using exampleDate_digits by (simp only: t)
  from lay have "tableBodies (generateProductCatalog examplePdfEnv [exampleWidget] exampleSettings)
      = [map (tableRow (numberToString examplePdfEnv)) [exampleWidget]]"
    and "tableRow (numberToString examplePdfEnv) exampleWidget = [''Widget'', ''Tools'', ''R$ 19.90'']"
    by blast+
  then have b: "tableBodies (generateProductCatalog examplePdfEnv [exampleWidget] exampleSettings)
      = [[[''Widget'', ''Tools'', ''R$ 19.90'']]]"
    by simp
  from d f b show ?thesis by simp
qed

subsection \<open>Purity of the renderer\<close>

text \<open>
  C6, as stated, fails: the renderer reads the current date and prints it in the subtitle,
  so two calls with equal products and equal company information made on different days
  return different documents; and jsPDF stamps every new document with a random file
  identifier, so even two calls at the same instant return different blobs.
\<close>

theorem generateProductCatalog_date_counterexample:
  "generateProductCatalog (examplePdfEnv \<lparr> today := exampleDate \<lparr> day := 23 \<rparr> \<rparr>)
       [exampleWidget] exampleSettings
     \<noteq> generateProductCatalog examplePdfEnv [exampleWidget] exampleSettings
   \<and> generateProductCatalog
         (examplePdfEnv \<lparr> randomFileId := ''0B6E1D9F47A3C25810FE7A9D4C3B2E60'' \<rparr>)
         [exampleWidget] exampleSettings
     \<noteq> generateProductCatalog examplePdfEnv [exampleWidget] exampleSettings"
  by code_simp

text \<open>
  C6, amended: the renderer does not mutate its inputs: called with the products array and
  the company object of a heap, it returns the blob of the function on their values and
  leaves every object that was on the heap before the call, these two and the product
  objects included, as it was. It is not a pure function from products and company to
  bytes. What it draws depends on the current calendar date besides its arguments: with
  equal arguments, two calls on the same day, month and year return the same blob when the
  file identifier and the creation time agree, and two calls on dates that print
  differently draw different documents. And the blob carries the random file identifier
  and the creation time of the document, so that two calls for which one of these differs
  return different blobs.
\<close>

theorem generateProductCatalog_purity:
  "(\<forall>h pr cr. readProducts h pr = Some ps \<and> readCompanyInfo h cr = Some c
       \<longrightarrow> (\<exists>h'. generateProductCatalogOnHeap env pr cr h
                    = Some (generateProductCatalog env ps c, h')
                \<and> take (length h) h' = h
                \<and> readProducts h' pr = Some ps
                \<and> readCompanyInfo h' cr = Some c))
   \<and> (year d' = year d \<and> month d' = month d \<and> day d' = day d
        \<longrightarrow> generateProductCatalog (env \<lparr> today := d' \<rparr>) ps c
              = generateProductCatalog (env \<lparr> today := d \<rparr>) ps c)
   \<and> (format_ddMMyyyy d' \<noteq> format_ddMMyyyy d
        \<longrightarrow> drawn (generateProductCatalog (env \<lparr> today := d' \<rparr>) ps c)
              \<noteq> drawn (generateProductCatalog (env \<lparr> today := d \<rparr>) ps c))
   \<and> blobFileId (generateProductCatalog env ps c) = randomFileId env
   \<and> blobCreationDate (generateProductCatalog env ps c) = createdAt env
   \<and> (randomFileId env' \<noteq> randomFileId env \<or> createdAt env' \<noteq> createdAt env
        \<longrightarrow> generateProductCatalog env' ps c \<noteq> generateProductCatalog env ps c)"
proof -
  have heap: "\<exists>h'. generateProductCatalogOnHeap env pr cr h
                    = Some (generateProductCatalog env ps c, h')
                \<and> take (length h) h' = h
                \<and> readProducts h' pr = Some ps
                \<and> readCompanyInfo h' cr = Some c"
    if a: "readProducts h pr = Some ps \<and> readCompanyInfo h cr = Some c" for h pr cr
  proof -
    from a generateProductCatalogOnHeap_refines [of h pr ps cr c env]
    obtain doc where r: "generateProductCatalogOnHeap env pr cr h
        = Some (generateProductCatalog env ps c,
                h @ [Document doc, TableData (map (tableRow (numberToString env)) ps)])"
      by blast
    let ?h' = "h @ [Document doc, TableData (map (tableRow (numberToString env)) ps)]"
    have "take (length h) ?h' = h" by simp
    moreover from a have "readProducts ?h' pr = Some ps" "readCompanyInfo ?h' cr = Some c"
      using readProducts_append readCompanyInfo_append by blast+
    ultimately show ?thesis using r by blast
  qed
  have same: "generateProductCatalog (env \<lparr> today := d' \<rparr>) ps c
              = generateProductCatalog (env \<lparr> today := d \<rparr>) ps c"
    if "year d' = year d \<and> month d' = month d \<and> day d' = day d"
    using that
    by (simp add: generateProductCatalog_def Let_def newJsPDF_def addFooterPhone_def
        addFooterEmail_def format_ddMMyyyy_def)
  have differ: "drawn (generateProductCatalog (env \<lparr> today := d' \<rparr>) ps c)
              \<noteq> drawn (generateProductCatalog (env \<lparr> today := d \<rparr>) ps c)"
    if "format_ddMMyyyy d' \<noteq> format_ddMMyyyy d"
    using that by (simp add: generateProductCatalog_items)
  have stamp: "generateProductCatalog env' ps c \<noteq> generateProductCatalog env ps c"
    if "randomFileId env' \<noteq> randomFileId env \<or> createdAt env' \<noteq> createdAt env"
  proof
    assume e: "generateProductCatalog env' ps c = generateProductCatalog env ps c"
    then have "blobFileId (generateProductCatalog env' ps c)
                 = blobFileId (generateProductCatalog env ps c)"
      and "blobCreationDate (generateProductCatalog env' ps c)
                 = blobCreationDate (generateProductCatalog env ps c)"
      by simp_all
    with that show False by (simp add: generateProductCatalog_stamp)
  qed
  from heap same differ stamp generateProductCatalog_stamp [of env ps c]
  show ?thesis by blast
qed

lemma exampleHeap_reads:
  "readProducts exampleHeap 1 = Some [exampleWidget]"
  "readCompanyInfo exampleHeap 2 = Some exampleSettings"
  by (simp_all add: exampleHeap_def readProducts_def readProduct_def readCompanyInfo_def)

theorem generateProductCatalog_purity_witness:
  "readProducts exampleHeap 1 = Some [exampleWidget]
   \<and> readCompanyInfo exampleHeap 2 = Some exampleSettings
   \<and> map_option fst (generateProductCatalogOnHeap examplePdfEnv 1 2 exampleHeap)
       = Some (generateProductCatalog examplePdfEnv [exampleWidget] exampleSettings)
   \<and> map_option (\<lambda>r. take (length exampleHeap) (snd r))
         (generateProductCatalogOnHeap examplePdfEnv 1 2 exampleHeap) = Some exampleHeap
   \<and> year (exampleDate \<lparr> hours := 23 \<rparr>) = year exampleDate
   \<and> month (exampleDate \<lparr> hours := 23 \<rparr>) = month exampleDate
   \<and> day (exampleDate \<lparr> hours := 23 \<rparr>) = day exampleDate
   \<and> exampleDate \<lparr> hours := 23 \<rparr> \<noteq> exampleDate
   \<and> generateProductCatalog (examplePdfEnv \<lparr> today := exampleDate \<lparr> hours := 23 \<rparr> \<rparr>)
        [exampleWidget] exampleSettings
       = generateProductCatalog (examplePdfEnv \<lparr> today := exampleDate \<rparr>)
           [exampleWidget] exampleSettings"
proof -
  note p = generateProductCatalog_purity
    [of "[exampleWidget]" exampleSettings examplePdfEnv "exampleDate \<lparr> hours := 23 \<rparr>"
      exampleDate examplePdfEnv]
  from p exampleHeap_reads obtain h' where
    r: "generateProductCatalogOnHeap examplePdfEnv 1 2 exampleHeap
          = Some (generateProductCatalog examplePdfEnv [exampleWidget] exampleSettings, h')"
    and f: "take (length exampleHeap) h' = exampleHeap"
    by blast
  have h: "year (exampleDate \<lparr> hours := 23 \<rparr>) = year exampleDate
           \<and> month (exampleDate \<lparr> hours := 23 \<rparr>) = month exampleDate
           \<and> day (exampleDate \<lparr> hours := 23 \<rparr>) = day exampleDate"
    by simp
  have n: "exampleDate \<lparr> hours := 23 \<rparr> \<noteq> exampleDate"
    by (simp add: exampleDate_def)
  from p h have e: "generateProductCatalog (examplePdfEnv \<lparr> today := exampleDate \<lparr> hours := 23 \<rparr> \<rparr>)
        [exampleWidget] exampleSettings
       = generateProductCatalog (examplePdfEnv \<lparr> today := exampleDate \<rparr>)
           [exampleWidget] exampleSettings"
    by blast
  from exampleHeap_reads r f h n e show ?thesis by simp
qed

subsection \<open>The footer\<close>

text \<open>
  C9: after the table the document holds, in this order, a left-aligned phone line at the
  left margin exactly when the contact phone is present (not null and not the empty
  string), and a right-aligned email line at the right margin exactly when the contact
  email is present; nothing else is drawn there, so an absent field leaves no text and no
  placeholder.
\<close>

theorem generateProductCatalog_footer:
  "footerItems (generateProductCatalog env ps companyInfo)
     = (if truthy (contact_phone companyInfo)
        then [TextItem (''Tel: '' @ the (contact_phone companyInfo)) 20 (pageHeight env - 20)
                AlignLeft 10]
        else [])
       @ (if truthy (contact_email companyInfo)
          then [TextItem (''Email: '' @ the (contact_email companyInfo)) (pageWidth env - 20)
                  (pageHeight env - 20) AlignRight 10]
          else [])
   \<and> (Some AlignLeft \<in> set (map alignOf (footerItems (generateProductCatalog env ps companyInfo)))
        \<longleftrightarrow> truthy (contact_phone companyInfo))
   \<and> (Some AlignRight \<in> set (map alignOf (footerItems (generateProductCatalog env ps companyInfo)))
        \<longleftrightarrow> truthy (contact_email companyInfo))
   \<and> (contact_phone companyInfo = None \<and> contact_email companyInfo = None
        \<longrightarrow> drawn (generateProductCatalog env ps companyInfo)
              = take 3 (drawn (generateProductCatalog env ps companyInfo)))
   \<and> length (drawn (generateProductCatalog env ps companyInfo))
       = 3 + (if truthy (contact_phone companyInfo) then 1 else 0)
           + (if truthy (contact_email companyInfo) then 1 else 0)"
  by (simp add: generateProductCatalog_items footerItems_def truthy_def)

theorem generateProductCatalog_footer_witness:
  "truthy (contact_phone exampleSettings) \<and> \<not> truthy (contact_email exampleSettings)
   \<and> footerItems (generateProductCatalog examplePdfEnv [exampleWidget] exampleSettings)
       = [TextItem ''Tel: 11 5555-0100'' 20 277 AlignLeft 10]
   \<and> contact_phone (exampleSettings \<lparr> contact_phone := None \<rparr>) = None
   \<and> contact_email (exampleSettings \<lparr> contact_phone := None \<rparr>) = None
   \<and> footerItems (generateProductCatalog examplePdfEnv [exampleWidget]
         (exampleSettings \<lparr> contact_phone := None \<rparr>)) = []"
proof -
  have p: "truthy (contact_phone exampleSettings) \<and> \<not> truthy (contact_email exampleSettings)"
    by (simp add: exampleSettings_def truthy_def)
  have q: "contact_phone (exampleSettings \<lparr> contact_phone := None \<rparr>) = None
           \<and> contact_email (exampleSettings \<lparr> contact_phone := None \<rparr>) = None"
    by (simp add: exampleSettings_def)
  have a: "footerItems (generateProductCatalog examplePdfEnv [exampleWidget] exampleSettings)
             = [TextItem ''Tel: 11 5555-0100'' 20 277 AlignLeft 10]"
    using p conjunct1 [OF generateProductCatalog_footer
        [of examplePdfEnv "[exampleWidget]" exampleSettings]]
    by (simp add: exampleSettings_def examplePdfEnv_def)
  have b: "footerItems (generateProductCatalog examplePdfEnv [exampleWidget]
             (exampleSettings \<lparr> contact_phone := None \<rparr>)) = []"
    using q conjunct1 [OF generateProductCatalog_footer
        [of examplePdfEnv "[exampleWidget]" "exampleSettings \<lparr> contact_phone := None \<rparr>"]]
    by (simp add: truthy_def)
  from p q a b show ?thesis by simp
qed

subsection \<open>Synchronization leaves the catalog price\<close>

lemma setColumn_unsynced:
  assumes "c \<noteq> ''id''" "c \<noteq> ''catalog_price''" "c \<noteq> ''last_synced_at''" "c \<noteq> ''created_at''"
  shows "unsyncedColumns (setColumn c v r) = unsyncedColumns r"
  using assms by (simp add: setColumn_def unsyncedColumns_def split: val.splits)

lemma synced_not_unsynced:
  "c \<in> set syncedColumnNames \<Longrightarrow>
     c \<noteq> ''id'' \<and> c \<noteq> ''catalog_price'' \<and> c \<noteq> ''last_synced_at'' \<and> c \<noteq> ''created_at''"
  by (auto simp: syncedColumnNames_def)

lemma mergeRow_unsynced:
  "set (map fst cols) \<subseteq> set syncedColumnNames \<Longrightarrow>
     unsyncedColumns (mergeRow cols r) = unsyncedColumns r"
proof (induction cols arbitrary: r)
  case Nil
  show ?case by simp
next
  case (Cons cv cols)
  obtain c v where cv: "cv = (c, v)" by (cases cv)
  from Cons.prems cv have "c \<in> set syncedColumnNames" by simp
  then have "unsyncedColumns (setColumn c v r) = unsyncedColumns r"
    using synced_not_unsynced [of c] setColumn_unsynced [of c v r] by blast
  moreover from Cons.prems have "set (map fst cols) \<subseteq> set syncedColumnNames" by simp
  ultimately show ?case using Cons.IH [of "setColumn c v r"] cv by simp
qed

lemma payload_columns:
  "map fst (upsertPayload env (normalizeProduct product)) = syncedColumnNames"
  by (simp add: upsertPayload_def normalizeProduct_def syncedColumnNames_def)

lemma upsertByKey_unsynced:
  assumes "set (map fst cols) \<subseteq> set syncedColumnNames"
  shows "length rows \<le> length (upsertByKey d rows cols)
       \<and> (\<forall>i < length rows.
             unsyncedColumns (upsertByKey d rows cols ! i) = unsyncedColumns (rows ! i))"
  using mergeRow_unsynced [OF assms]
  by (auto simp: upsertByKey_def nth_append)

lemma upsert_unsynced:
  assumes "\<forall>cols \<in> set payloads. set (map fst cols) \<subseteq> set syncedColumnNames"
  shows "length rows \<le> length (upsert d payloads rows)
       \<and> (\<forall>i < length rows.
             unsyncedColumns (upsert d payloads rows ! i) = unsyncedColumns (rows ! i))"
  using assms
proof (induction payloads arbitrary: rows)
  case Nil
  show ?case by (simp add: upsert_def)
next
  case (Cons cols payloads)
  from Cons.prems have c: "set (map fst cols) \<subseteq> set syncedColumnNames" by simp
  from Cons.prems have rest: "\<forall>cols \<in> set payloads. set (map fst cols) \<subseteq> set syncedColumnNames"
    by simp
  note one = upsertByKey_unsynced [OF c, of rows d]
  note more = Cons.IH [OF rest, of "upsertByKey d rows cols"]
  have step: "upsert d (cols # payloads) rows = upsert d payloads (upsertByKey d rows cols)"
    by (simp add: upsert_def)
  show ?case
  proof (intro conjI allI impI)
    show "length rows \<le> length (upsert d (cols # payloads) rows)"
      using one more step by simp
  next
    fix i assume i: "i < length rows"
    with one have j: "i < length (upsertByKey d rows cols)" by simp
    from more j have "unsyncedColumns (upsert d payloads (upsertByKey d rows cols) ! i)
                        = unsyncedColumns (upsertByKey d rows cols ! i)" by blast
    with one i step
    show "unsyncedColumns (upsert d (cols # payloads) rows ! i) = unsyncedColumns (rows ! i)"
      by simp
  qed
qed

lemma update_new_key:
  "k \<notin> set (map fst al) \<Longrightarrow> map fst (AList.update k v al) = map fst al @ [k]"
  by (induction al) auto

lemma normalizeProduct_keys:
  "map fst (normalizeProduct p)
     = [''woo_id'', ''name'', ''price'', ''description'', ''image_url'', ''category'',
        ''is_active'']"
  by (simp add: normalizeProduct_def)

lemma upsertPayload_keys:
  assumes "map fst row
     = [''woo_id'', ''name'', ''price'', ''description'', ''image_url'', ''category'',
        ''is_active'']"
  shows "map fst (upsertPayload env row) = syncedColumnNames"
proof -
  have "''updated_at'' \<notin> set (map fst row)" unfolding assms by simp
  from update_new_key [OF this] show ?thesis
    unfolding upsertPayload_def assms syncedColumnNames_def by simp
qed

lemma syncProducts_rows:
  assumes "syncProducts renv = Inr ws" and "w \<in> set ws"
  shows "map fst w
     = [''woo_id'', ''name'', ''price'', ''description'', ''image_url'', ''category'',
        ''is_active'']"
proof -
  from assms(1) have t: "syncProductsTry renv = Inr ws"
    by (simp add: syncProducts_def split: sum.splits)
  then consider ps where "ws = map normalizeProduct ps" | es where "normalizeElements es = Inr ws"
    by (auto simp: syncProductsTry_def split: if_splits option.splits sum.splits payload.splits)
  then show ?thesis
  proof cases
    case 1
    with assms(2) normalizeProduct_keys show ?thesis by auto
  next
    case 2
    from normalizeElements_keys [OF 2 assms(2)] show ?thesis .
  qed
qed

lemma handleSync_storeRows:
  "storeRows (handleSync env rows ui) = rows
   \<or> (\<exists>ws. (\<forall>cols \<in> set (map (upsertPayload env) ws).
               set (map fst cols) \<subseteq> set syncedColumnNames)
          \<and> storeRows (handleSync env rows ui)
              = upsert (insertDefaults env) (map (upsertPayload env) ws) rows)"
proof (cases "syncProducts (remote env)")
  case (Inl e)
  then show ?thesis by (simp add: handleSync_def)
next
  case (Inr ws)
  have keys: "\<forall>cols \<in> set (map (upsertPayload env) ws).
                set (map fst cols) \<subseteq> set syncedColumnNames"
  proof
    fix cols
    assume "cols \<in> set (map (upsertPayload env) ws)"
    then obtain w where w: "w \<in> set ws" and c: "cols = upsertPayload env w" by auto
    from upsertPayload_keys [OF syncProducts_rows [OF Inr w], of env]
    show "set (map fst cols) \<subseteq> set syncedColumnNames"
      unfolding c by simp
  qed
  have "storeRows (handleSync env rows ui) = rows
        \<or> storeRows (handleSync env rows ui)
             = upsert (insertDefaults env) (map (upsertPayload env) ws) rows"
    using Inr by (auto simp: handleSync_def Let_def split: option.splits)
  with keys show ?thesis by blast
qed

text \<open>
  C1: a synchronization run keeps every existing row of the store at its place and leaves
  its \<open>catalog_price\<close> as it was, whatever the remote answers and whether the run
  succeeds or fails. The payload it upserts carries the columns \<open>woo_id\<close>, \<open>name\<close>,
  \<open>price\<close>, \<open>description\<close>, \<open>image_url\<close>, \<open>category\<close>, \<open>is_active\<close> and the
  timestamp \<open>updated_at\<close> only, so the store's column-level merge also leaves \<open>id\<close>,
  \<open>last_synced_at\<close> and \<open>created_at\<close> of an existing row.
\<close>

theorem handleSync_keeps_catalog_price:
  "length rows \<le> length (storeRows (handleSync env rows ui))
   \<and> (\<forall>i < length rows.
         catalog_price (storeRows (handleSync env rows ui) ! i) = catalog_price (rows ! i)
         \<and> unsyncedColumns (storeRows (handleSync env rows ui) ! i) = unsyncedColumns (rows ! i))
   \<and> map fst (upsertPayload env (normalizeProduct product))
       = [''woo_id'', ''name'', ''price'', ''description'', ''image_url'', ''category'',
          ''is_active'', ''updated_at'']"
proof -
  from handleSync_storeRows [of env rows ui]
  have frame: "length rows \<le> length (storeRows (handleSync env rows ui))
       \<and> (\<forall>i < length rows.
             unsyncedColumns (storeRows (handleSync env rows ui) ! i) = unsyncedColumns (rows ! i))"
  proof
    assume "storeRows (handleSync env rows ui) = rows"
    then show ?thesis by simp
  next
    assume "\<exists>ws. (\<forall>cols \<in> set (map (upsertPayload env) ws).
               set (map fst cols) \<subseteq> set syncedColumnNames)
          \<and> storeRows (handleSync env rows ui)
              = upsert (insertDefaults env) (map (upsertPayload env) ws) rows"
    then obtain ws where keys: "\<forall>cols \<in> set (map (upsertPayload env) ws).
               set (map fst cols) \<subseteq> set syncedColumnNames"
      and eq: "storeRows (handleSync env rows ui)
              = upsert (insertDefaults env) (map (upsertPayload env) ws) rows"
      by blast
    show ?thesis
      unfolding eq by (rule upsert_unsynced [OF keys])
  qed
  have cp: "catalog_price a = catalog_price b" if "unsyncedColumns a = unsyncedColumns b" for a b
    using that by (simp add: unsyncedColumns_def)
  have cols: "map fst (upsertPayload env (normalizeProduct product))
       = [''woo_id'', ''name'', ''price'', ''description'', ''image_url'', ''category'',
          ''is_active'', ''updated_at'']"
    using payload_columns [of env product] by (simp only: syncedColumnNames_def)
  from frame cp have "\<forall>i < length rows.
         catalog_price (storeRows (handleSync env rows ui) ! i) = catalog_price (rows ! i)
         \<and> unsyncedColumns (storeRows (handleSync env rows ui) ! i) = unsyncedColumns (rows ! i)"
    by blast
  with frame cols show ?thesis by blast
qed

theorem handleSync_keeps_catalog_price_witness:
  "(0::nat) < length (fst (handlePriceUpdate
       (exampleEnv (exampleResponse 200 [] (Records [exampleWooProduct ''12.50''])))
       ''row-0'' (Finite 9) [exampleRow \<lparr> catalog_price := None \<rparr>] initialState))
   \<and> catalog_price (storeRows (handleSync
         (exampleEnv (exampleResponse 200 [] (Records [exampleWooProduct ''12.50''])))
         (fst (handlePriceUpdate
            (exampleEnv (exampleResponse 200 [] (Records [exampleWooProduct ''12.50''])))
            ''row-0'' (Finite 9) [exampleRow \<lparr> catalog_price := None \<rparr>] initialState))
         (initialState \<lparr> hasSettings := Some True \<rparr>)) ! 0) = Some (Finite 9)
   \<and> price (storeRows (handleSync
         (exampleEnv (exampleResponse 200 [] (Records [exampleWooProduct ''12.50''])))
         (fst (handlePriceUpdate
            (exampleEnv (exampleResponse 200 [] (Records [exampleWooProduct ''12.50''])))
            ''row-0'' (Finite 9) [exampleRow \<lparr> catalog_price := None \<rparr>] initialState))
         (initialState \<lparr> hasSettings := Some True \<rparr>)) ! 0) = Finite (25 / 2)
   \<and> price exampleRow = Finite 10"
proof -
  let ?env = "exampleEnv (exampleResponse 200 [] (Records [exampleWooProduct ''12.50'']))"
  let ?rows = "fst (handlePriceUpdate ?env ''row-0'' (Finite 9)
                 [exampleRow \<lparr> catalog_price := None \<rparr>] initialState)"
  let ?ui = "initialState \<lparr> hasSettings := Some True \<rparr>"
  have rows: "?rows = [exampleRow \<lparr> catalog_price := Some (Finite 9) \<rparr>]"
    by (simp add: handlePriceUpdate_def exampleEnv_def setCatalogPrice_def exampleRow_def)
  then have l: "0 < length ?rows" by simp
  from handleSync_keeps_catalog_price [of ?rows ?env ?ui] l
  have "catalog_price (storeRows (handleSync ?env ?rows ?ui) ! 0) = catalog_price (?rows ! 0)"
    by blast
  then have c: "catalog_price (storeRows (handleSync ?env ?rows ?ui) ! 0) = Some (Finite 9)"
    by (simp add: rows)
  have p: "price (storeRows (handleSync ?env ?rows ?ui) ! 0) = Finite (25 / 2)"
    unfolding rows by code_simp
  have q: "price exampleRow = Finite 10" by (simp add: exampleRow_def)
  from l c p q show ?thesis by blast
qed

subsection \<open>The outcome of a synchronization\<close>

lemma woo_id_mergeRow_payload:
  "woo_id (mergeRow (upsertPayload env (normalizeProduct p)) r) = wc_id p"
  by (simp add: upsertPayload_def normalizeProduct_def setColumn_def firstOrNull_def
      split: list.splits)

lemma conflicts_payload:
  "conflicts (upsertPayload env (normalizeProduct p)) r \<longleftrightarrow> woo_id r = wc_id p"
  by (auto simp: conflicts_def upsertPayload_def normalizeProduct_def)

lemma upsertByKey_keeps_ids:
  "woo_id ` set rows \<subseteq> woo_id ` set (upsertByKey d rows (upsertPayload env (normalizeProduct p)))"
proof
  fix k assume "k \<in> woo_id ` set rows"
  then obtain r where r: "r \<in> set rows" "woo_id r = k" by auto
  let ?f = "\<lambda>r. if conflicts (upsertPayload env (normalizeProduct p)) r
                  then mergeRow (upsertPayload env (normalizeProduct p)) r else r"
  have "woo_id (?f r) = k"
    using r by (simp add: conflicts_payload woo_id_mergeRow_payload)
  moreover have "?f r \<in> set (map ?f rows)" using r by simp
  ultimately have "k \<in> woo_id ` set (map ?f rows)" by force
  then show "k \<in> woo_id ` set (upsertByKey d rows (upsertPayload env (normalizeProduct p)))"
    using r by (auto simp: upsertByKey_def)
qed

lemma upsertByKey_has_row:
  "wc_id p \<in> woo_id ` set (upsertByKey d rows (upsertPayload env (normalizeProduct p)))"
proof (cases "list_ex (conflicts (upsertPayload env (normalizeProduct p))) rows")
  case True
  then obtain r where "r \<in> set rows" "woo_id r = wc_id p"
    by (auto simp: list_ex_iff conflicts_payload)
  then have "wc_id p \<in> woo_id ` set rows" by force
  with upsertByKey_keeps_ids [of rows d env p] show ?thesis by blast
next
  case False
  then show ?thesis
    by (simp add: upsertByKey_def woo_id_mergeRow_payload)
qed

lemma upsert_keeps_ids:
  "woo_id ` set rows
     \<subseteq> woo_id ` set (upsert d (map (upsertPayload env) (map normalizeProduct ps)) rows)"
proof (induction ps arbitrary: rows)
  case Nil
  show ?case by (simp add: upsert_def)
next
  case (Cons p ps)
  have "upsert d (map (upsertPayload env) (map normalizeProduct (p # ps))) rows
          = upsert d (map (upsertPayload env) (map normalizeProduct ps))
              (upsertByKey d rows (upsertPayload env (normalizeProduct p)))"
    by (simp add: upsert_def)
  then show ?case
    using upsertByKey_keeps_ids [of rows d env p]
      Cons.IH [of "upsertByKey d rows (upsertPayload env (normalizeProduct p))"]
    by (simp only:) 
qed

lemma upsert_written:
  "p \<in> set ps \<Longrightarrow>
     wc_id p \<in> woo_id ` set (upsert d (map (upsertPayload env) (map normalizeProduct ps)) rows)"
proof (induction ps arbitrary: rows)
  case Nil
  then show ?case by simp
next
  case (Cons q ps)
  have step: "upsert d (map (upsertPayload env) (map normalizeProduct (q # ps))) rows
          = upsert d (map (upsertPayload env) (map normalizeProduct ps))
              (upsertByKey d rows (upsertPayload env (normalizeProduct q)))"
    by (simp add: upsert_def)
  show ?case
  proof (cases "p = q")
    case True
    with upsertByKey_has_row [of q d rows env]
      upsert_keeps_ids [of "upsertByKey d rows (upsertPayload env (normalizeProduct q))" d env ps]
    show ?thesis unfolding step by blast
  next
    case False
    with Cons.prems have "p \<in> set ps" by simp
    from Cons.IH [OF this] show ?thesis unfolding step .
  qed
qed

lemma handleSync_resolvedTo: "resolvedTo (handleSync env rows ui) = Undefined"
  by (simp add: handleSync_def Let_def split: sum.splits option.splits)

lemma syncProducts_settings_error:
  "error (settingsSingle renv) \<noteq> None \<Longrightarrow> syncProducts renv = Inl settingsLoadError"
  by (simp add: syncProducts_def syncProductsTry_def settingsLoadError_def)

lemma syncProducts_settings_missing:
  "error (settingsSingle renv) = None \<Longrightarrow> data (settingsSingle renv) = None
     \<Longrightarrow> syncProducts renv = Inl settingsNotFoundError"
  by (simp add: syncProducts_def syncProductsTry_def settingsNotFoundError_def)

text \<open>
  C8, as stated, fails: \<open>handleSync\<close> resolves to \<open>undefined\<close>, not to the count of the
  products written; here one product is written.
\<close>

theorem handleSync_count_counterexample:
  "resolvedTo (handleSync
       (exampleEnv (exampleResponse 200 [] (Records [exampleWooProduct ''12.50''])))
       [] (initialState \<lparr> hasSettings := Some True \<rparr>)) = Undefined
   \<and> resolvedTo (handleSync
       (exampleEnv (exampleResponse 200 [] (Records [exampleWooProduct ''12.50''])))
       [] (initialState \<lparr> hasSettings := Some True \<rparr>)) \<noteq> NumberValue 1
   \<and> map woo_id (storeRows (handleSync
       (exampleEnv (exampleResponse 200 [] (Records [exampleWooProduct ''12.50''])))
       [] (initialState \<lparr> hasSettings := Some True \<rparr>))) = [7]"
  by code_simp

text \<open>
  C8, amended: \<open>handleSync\<close> returns no value in any case. When the settings are present and
  the fetch and the upsert succeed, it completes after one payload per remote product has
  been upserted, so that every remote product has its row in the store, and after the
  list of the page has been reloaded from the store. When \<open>hasSettings\<close> is not true it does
  not fail: it leaves the store, sets the message that asks to configure first and
  returns. The client \<open>syncProducts\<close> throws an error when the settings row cannot be loaded
  or is absent, which \<open>handleSync\<close> catches and shows as its message.
\<close>

theorem handleSync_outcome:
  "resolvedTo (handleSync env rows ui) = Undefined
   \<and> (hasSettings ui \<noteq> Some True
        \<longrightarrow> storeRows (handleSync env rows ui) = rows
          \<and> errorMsg (uiState (handleSync env rows ui)) = Some configureFirstMessage)
   \<and> (error (settingsSingle (remote env)) \<noteq> None
        \<longrightarrow> syncProducts (remote env) = Inl settingsLoadError)
   \<and> (error (settingsSingle (remote env)) = None \<and> data (settingsSingle (remote env)) = None
        \<longrightarrow> syncProducts (remote env) = Inl settingsNotFoundError)
   \<and> (\<forall>e. hasSettings ui = Some True \<and> syncProducts (remote env) = Inl e
        \<longrightarrow> storeRows (handleSync env rows ui) = rows
          \<and> errorMsg (uiState (handleSync env rows ui)) = Some (caughtMessage e))
   \<and> (\<forall>ps. hasSettings ui = Some True
          \<and> syncProducts (remote env) = Inr (map normalizeProduct ps)
          \<and> upsertError env = None
        \<longrightarrow> storeRows (handleSync env rows ui)
              = upsert (insertDefaults env) (map (upsertPayload env) (map normalizeProduct ps)) rows
          \<and> length (map (upsertPayload env) (map normalizeProduct ps)) = length ps
          \<and> (\<forall>p \<in> set ps. wc_id p \<in> woo_id ` set (storeRows (handleSync env rows ui)))
          \<and> (selectError env = None
               \<longrightarrow> products (uiState (handleSync env rows ui))
                     = storeRows (handleSync env rows ui)))"
proof -
  have a: "hasSettings ui \<noteq> Some True
        \<Longrightarrow> storeRows (handleSync env rows ui) = rows
          \<and> errorMsg (uiState (handleSync env rows ui)) = Some configureFirstMessage"
    by (simp add: handleSync_def)
  have b: "storeRows (handleSync env rows ui) = rows
          \<and> errorMsg (uiState (handleSync env rows ui)) = Some (caughtMessage e)"
    if "hasSettings ui = Some True \<and> syncProducts (remote env) = Inl e" for e
    using that by (simp add: handleSync_def)
  have c: "storeRows (handleSync env rows ui)
              = upsert (insertDefaults env) (map (upsertPayload env) (map normalizeProduct ps)) rows
          \<and> length (map (upsertPayload env) (map normalizeProduct ps)) = length ps
          \<and> (\<forall>p \<in> set ps. wc_id p \<in> woo_id ` set (storeRows (handleSync env rows ui)))
          \<and> (selectError env = None
               \<longrightarrow> products (uiState (handleSync env rows ui))
                     = storeRows (handleSync env rows ui))"
    if h: "hasSettings ui = Some True
          \<and> syncProducts (remote env) = Inr (map normalizeProduct ps)
          \<and> upsertError env = None" for ps
  proof -
    from h have s: "storeRows (handleSync env rows ui)
        = upsert (insertDefaults env) (map (upsertPayload env) (map normalizeProduct ps)) rows"
      by (simp add: handleSync_def Let_def)
    from h have u: "selectError env = None
        \<Longrightarrow> products (uiState (handleSync env rows ui)) = storeRows (handleSync env rows ui)"
      by (simp add: handleSync_def Let_def fetchProducts_def)
    have w: "\<forall>p \<in> set ps. wc_id p \<in> woo_id ` set (storeRows (handleSync env rows ui))"
      unfolding s using upsert_written by blast
    from s u w show ?thesis by simp
  qed
  from handleSync_resolvedTo [of env rows ui] a b c
    syncProducts_settings_error [of "remote env"]
    syncProducts_settings_missing [of "remote env"]
  show ?thesis by blast
qed

theorem handleSync_outcome_witness:
  "hasSettings initialState \<noteq> Some True
   \<and> storeRows (handleSync (exampleEnv (exampleResponse 200 [] (Records [exampleWooProduct ''12.50''])))
        [exampleRow] initialState) = [exampleRow]
   \<and> hasSettings (initialState \<lparr> hasSettings := Some True \<rparr>) = Some True
   \<and> syncProducts (remote (exampleEnv (exampleResponse 200 [] (Records [exampleWooProduct ''12.50'']))))
       = Inr (map normalizeProduct [exampleWooProduct ''12.50''])
   \<and> upsertError (exampleEnv (exampleResponse 200 [] (Records [exampleWooProduct ''12.50'']))) = None
   \<and> exampleWooProduct ''12.50'' \<in> set [exampleWooProduct ''12.50'']
   \<and> wc_id (exampleWooProduct ''12.50'')
       \<in> woo_id ` set (storeRows (handleSync
            (exampleEnv (exampleResponse 200 [] (Records [exampleWooProduct ''12.50''])))
            [exampleRow] (initialState \<lparr> hasSettings := Some True \<rparr>)))"
proof -
  let ?env = "exampleEnv (exampleResponse 200 [] (Records [exampleWooProduct ''12.50'']))"
  let ?ui = "initialState \<lparr> hasSettings := Some True \<rparr>"
  have n: "hasSettings initialState \<noteq> Some True" by (simp add: initialState_def)
  have y: "hasSettings ?ui = Some True" by simp
  have s: "syncProducts (remote ?env) = Inr (map normalizeProduct [exampleWooProduct ''12.50''])"
    by code_simp
  have u: "upsertError ?env = None" by (simp add: exampleEnv_def)
  from n handleSync_outcome [of ?env "[exampleRow]" initialState]
  have 1: "storeRows (handleSync ?env [exampleRow] initialState) = [exampleRow]" by blast
  from y s u handleSync_outcome [of ?env "[exampleRow]" ?ui]
  have "\<forall>p \<in> set [exampleWooProduct ''12.50''].
          wc_id p \<in> woo_id ` set (storeRows (handleSync ?env [exampleRow] ?ui))"
    by blast
  then have 2: "wc_id (exampleWooProduct ''12.50'')
                  \<in> woo_id ` set (storeRows (handleSync ?env [exampleRow] ?ui))"
    by simp
  from n 1 y s u 2 show ?thesis by simp
qed

subsection \<open>The guard of the PDF export\<close>

text \<open>
  C7, as stated, fails in its last part: the guard tests the selection, not the list given
  to the renderer. After a product has been selected and a later load of the products no
  longer returns it, the selection is not empty and the renderer is called with the empty
  list.
\<close>

theorem generatePDF_stale_selection_counterexample:
  "selectedProducts
     (fetchProducts (exampleEnv (exampleResponse 200 [] (Records []))) []
        (handleProductSelect ''row-0''
           (fetchProducts (exampleEnv (exampleResponse 200 [] (Records []))) [exampleRow]
              initialState))) = {|''row-0''|}
   \<and> rendererCalls
       (generatePDF (exampleEnv (exampleResponse 200 [] (Records [])))
          (fetchProducts (exampleEnv (exampleResponse 200 [] (Records []))) []
             (handleProductSelect ''row-0''
                (fetchProducts (exampleEnv (exampleResponse 200 [] (Records []))) [exampleRow]
                   initialState)))) = [([], exampleSettings)]"
  by code_simp

text \<open>
  C7, amended: when zero products are selected, \<open>generatePDF\<close> sets the error that asks to
  select a product, calls the renderer not at all and offers no download. The renderer is
  called only when the selection is not empty, with the loaded products whose id is
  selected, in their order; that list is not empty exactly when some loaded product is
  selected.
\<close>

theorem generatePDF_guard:
  "(fcard (selectedProducts ui) = 0
      \<longrightarrow> rendererCalls (generatePDF env ui) = []
        \<and> downloads (generatePDF env ui) = []
        \<and> errorMsg (pageState (generatePDF env ui)) = Some selectAProductMessage)
   \<and> (\<forall>ps c. (ps, c) \<in> set (rendererCalls (generatePDF env ui))
        \<longrightarrow> selectedProducts ui \<noteq> {||}
          \<and> ps = map toCatalogProduct
                   (filter (\<lambda>product. row_id product |\<in>| selectedProducts ui) (products ui))
          \<and> (ps \<noteq> [] \<longleftrightarrow> (\<exists>product \<in> set (products ui). row_id product |\<in>| selectedProducts ui)))"
proof -
  have a: "fcard (selectedProducts ui) = 0
      \<Longrightarrow> rendererCalls (generatePDF env ui) = []
        \<and> downloads (generatePDF env ui) = []
        \<and> errorMsg (pageState (generatePDF env ui)) = Some selectAProductMessage"
    by (simp add: generatePDF_def)
  have b: "selectedProducts ui \<noteq> {||}
          \<and> ps = map toCatalogProduct
                   (filter (\<lambda>product. row_id product |\<in>| selectedProducts ui) (products ui))
          \<and> (ps \<noteq> [] \<longleftrightarrow> (\<exists>product \<in> set (products ui). row_id product |\<in>| selectedProducts ui))"
    if "(ps, c) \<in> set (rendererCalls (generatePDF env ui))" for ps c
  proof -
    from that have ne: "fcard (selectedProducts ui) \<noteq> 0"
      by (auto simp: generatePDF_def split: if_splits)
    with that have ps: "ps = map toCatalogProduct
        (filter (\<lambda>product. row_id product |\<in>| selectedProducts ui) (products ui))"
      by (auto simp: generatePDF_def Let_def split: if_splits)
    from ne have "selectedProducts ui \<noteq> {||}" by auto
    moreover have "ps \<noteq> [] \<longleftrightarrow> (\<exists>product \<in> set (products ui). row_id product |\<in>| selectedProducts ui)"
      unfolding ps by (auto simp: filter_empty_conv)
    ultimately show ?thesis using ps by blast
  qed
  from a b show ?thesis by blast
qed

theorem generatePDF_guard_witness:
  "fcard (selectedProducts initialState) = 0
   \<and> rendererCalls (generatePDF (exampleEnv (exampleResponse 200 [] (Records []))) initialState) = []
   \<and> ([toCatalogProduct exampleRow], exampleSettings)
       \<in> set (rendererCalls (generatePDF (exampleEnv (exampleResponse 200 [] (Records [])))
            (handleProductSelect ''row-0''
               (fetchProducts (exampleEnv (exampleResponse 200 [] (Records []))) [exampleRow]
                  initialState))))
   \<and> selectedProducts (handleProductSelect ''row-0''
        (fetchProducts (exampleEnv (exampleResponse 200 [] (Records []))) [exampleRow]
           initialState)) \<noteq> {||}"
proof -
  let ?env = "exampleEnv (exampleResponse 200 [] (Records []))"
  let ?ui = "handleProductSelect ''row-0'' (fetchProducts ?env [exampleRow] initialState)"
  have z: "fcard (selectedProducts initialState) = 0" by (simp add: initialState_def)
  from z generatePDF_guard [of initialState ?env]
  have 1: "rendererCalls (generatePDF ?env initialState) = []" by blast
  have m: "([toCatalogProduct exampleRow], exampleSettings)
             \<in> set (rendererCalls (generatePDF ?env ?ui))"
    by code_simp
  from m generatePDF_guard [of ?ui ?env]
  have 2: "selectedProducts ?ui \<noteq> {||}" by blast
  from z 1 m 2 show ?thesis by blast
qed

subsection \<open>The price in the exported PDF\<close>

text \<open>
  C4 does not hold of the code: \<open>generatePDF\<close> gives the renderer the store-of-record
  \<open>price\<close> of each selected product. For a product with price 10 and catalog price 8,
  which the product table shows as 8, the exported row prints \<open>R$ 10.00\<close>.
\<close>

theorem generatePDF_prints_store_price:
  "catalog_price exampleRow = Some (Finite 8)
   \<and> catalogPriceCell exampleRow = Finite 8
   \<and> price exampleRow = Finite 10
   \<and> map (\<lambda>file. tableBodies (snd file))
       (downloads (generatePDF (exampleEnv (exampleResponse 200 [] (Records [])))
          (handleProductSelect ''row-0''
             (fetchProducts (exampleEnv (exampleResponse 200 [] (Records []))) [exampleRow]
                initialState))))
      = [[[[''Widget'', ''Tools'', ''R$ 10.00'']]]]"
  by code_simp

theorem generatePDF_prints_store_price_witness:
  "catalogPriceCell exampleRow \<noteq> price exampleRow
   \<and> map (\<lambda>file. tableBodies (snd file))
       (downloads (generatePDF (exampleEnv (exampleResponse 200 [] (Records [])))
          (handleProductSelect ''row-0''
             (fetchProducts (exampleEnv (exampleResponse 200 [] (Records []))) [exampleRow]
                initialState))))
      \<noteq> [[[[''Widget'', ''Tools'', ''R$ 8.00'']]]]"
  using generatePDF_prints_store_price by simp

end
